theory Spec2Isabelle
  imports Main
begin

section \<open>Strings and exceptions\<close>

text \<open>
  A Python \<^verbatim>\<open>str\<close> is modelled as a \<^typ>\<open>string\<close> holding its UTF-8 encoding, one
  \<^typ>\<open>char\<close> per byte. Two Python strings are equal exactly when their encodings are, a
  string is falsy exactly when its encoding is empty, and concatenation is \<open>@\<close>. The
  Chinese literals of the source are written out byte by byte below.
\<close>

text \<open>
  The exceptions of the program, all of them subclasses of \<^verbatim>\<open>Exception\<close>.
  \<^verbatim>\<open>ValueError\<close> carries its message (\<^verbatim>\<open>str(e)\<close>); pydantic's
  \<^verbatim>\<open>ValidationError\<close> is a subclass of \<^verbatim>\<open>ValueError\<close>. \<open>OtherError\<close> stands for
  any other exception an awaited call may raise.
\<close>

datatype exc =
    ValueError string
  | PlaywrightTimeoutError
  | AttributeError
  | TypeError
  | KeyError
  | ValidationError
  | OtherError string

fun is_ValueError :: "exc \<Rightarrow> bool" where
  "is_ValueError (ValueError m) = True"
| "is_ValueError ValidationError = True"
| "is_ValueError e = False"

text \<open>\<^verbatim>\<open>str(e)\<close> of an exception: the message where the model carries one.\<close>

fun str_exc :: "exc \<Rightarrow> string" where
  "str_exc (ValueError m) = m"
| "str_exc (OtherError m) = m"
| "str_exc e = []"

text \<open>Sequencing of fallible steps: the first exception ends the computation.\<close>

definition bindE :: "exc + 'a \<Rightarrow> ('a \<Rightarrow> exc + 'b) \<Rightarrow> exc + 'b" where
  "bindE m f = (case m of Inl e \<Rightarrow> Inl e | Inr v \<Rightarrow> f v)"

text \<open>Decimal rendering of an integer, as an f-string does it.\<close>

definition digit_char :: "nat \<Rightarrow> char" where
  "digit_char d =
     (if d = 0 then CHR ''0'' else if d = 1 then CHR ''1'' else if d = 2 then CHR ''2''
      else if d = 3 then CHR ''3'' else if d = 4 then CHR ''4'' else if d = 5 then CHR ''5''
      else if d = 6 then CHR ''6'' else if d = 7 then CHR ''7'' else if d = 8 then CHR ''8''
      else CHR ''9'')"

fun str_nat :: "nat \<Rightarrow> string" where
  "str_nat n = (if n < 10 then [digit_char n] else str_nat (n div 10) @ [digit_char (n mod 10)])"

definition str_int :: "int \<Rightarrow> string" where
  "str_int i = (if i < 0 then CHR ''-'' # str_nat (nat (- i)) else str_nat (nat i))"

section \<open>The filter translator (search\_model.py)\<close>

subsection \<open>Literals\<close>

text \<open>Sort order, group 1: U+7EFC U+5408 (comprehensive), then latest, most liked,
  most commented, most collected.\<close>

definition zonghe :: string where
  "zonghe = [CHR 0xE7, CHR 0xBB, CHR 0xBC, CHR 0xE5, CHR 0x90, CHR 0x88]"

definition zuixin :: string where
  "zuixin = [CHR 0xE6, CHR 0x9C, CHR 0x80, CHR 0xE6, CHR 0x96, CHR 0xB0]"

definition zuiduo_dianzan :: string where
  "zuiduo_dianzan = [CHR 0xE6, CHR 0x9C, CHR 0x80, CHR 0xE5, CHR 0xA4, CHR 0x9A,
                     CHR 0xE7, CHR 0x82, CHR 0xB9, CHR 0xE8, CHR 0xB5, CHR 0x9E]"

definition zuiduo_pinglun :: string where
  "zuiduo_pinglun = [CHR 0xE6, CHR 0x9C, CHR 0x80, CHR 0xE5, CHR 0xA4, CHR 0x9A,
                     CHR 0xE8, CHR 0xAF, CHR 0x84, CHR 0xE8, CHR 0xAE, CHR 0xBA]"

definition zuiduo_shoucang :: string where
  "zuiduo_shoucang = [CHR 0xE6, CHR 0x9C, CHR 0x80, CHR 0xE5, CHR 0xA4, CHR 0x9A,
                      CHR 0xE6, CHR 0x94, CHR 0xB6, CHR 0xE8, CHR 0x97, CHR 0x8F]"

text \<open>The first option of groups 2 to 5: U+4E0D U+9650 (no restriction).\<close>

definition buxian :: string where
  "buxian = [CHR 0xE4, CHR 0xB8, CHR 0x8D, CHR 0xE9, CHR 0x99, CHR 0x90]"

text \<open>Note type, group 2: video, image and text.\<close>

definition shipin :: string where
  "shipin = [CHR 0xE8, CHR 0xA7, CHR 0x86, CHR 0xE9, CHR 0xA2, CHR 0x91]"

definition tuwen :: string where
  "tuwen = [CHR 0xE5, CHR 0x9B, CHR 0xBE, CHR 0xE6, CHR 0x96, CHR 0x87]"

text \<open>Publish time, group 3: within a day, a week, half a year.\<close>

definition yitian_nei :: string where
  "yitian_nei = [CHR 0xE4, CHR 0xB8, CHR 0x80, CHR 0xE5, CHR 0xA4, CHR 0xA9, CHR 0xE5, CHR 0x86, CHR 0x85]"

definition yizhou_nei :: string where
  "yizhou_nei = [CHR 0xE4, CHR 0xB8, CHR 0x80, CHR 0xE5, CHR 0x91, CHR 0xA8, CHR 0xE5, CHR 0x86, CHR 0x85]"

definition bannian_nei :: string where
  "bannian_nei = [CHR 0xE5, CHR 0x8D, CHR 0x8A, CHR 0xE5, CHR 0xB9, CHR 0xB4, CHR 0xE5, CHR 0x86, CHR 0x85]"

text \<open>Search scope, group 4: seen, not seen, followed.\<close>

definition yi_kanguo :: string where
  "yi_kanguo = [CHR 0xE5, CHR 0xB7, CHR 0xB2, CHR 0xE7, CHR 0x9C, CHR 0x8B, CHR 0xE8, CHR 0xBF, CHR 0x87]"

definition wei_kanguo :: string where
  "wei_kanguo = [CHR 0xE6, CHR 0x9C, CHR 0xAA, CHR 0xE7, CHR 0x9C, CHR 0x8B, CHR 0xE8, CHR 0xBF, CHR 0x87]"

definition yi_guanzhu :: string where
  "yi_guanzhu = [CHR 0xE5, CHR 0xB7, CHR 0xB2, CHR 0xE5, CHR 0x85, CHR 0xB3, CHR 0xE6, CHR 0xB3, CHR 0xA8]"

text \<open>Location, group 5: same city, nearby.\<close>

definition tongcheng :: string where
  "tongcheng = [CHR 0xE5, CHR 0x90, CHR 0x8C, CHR 0xE5, CHR 0x9F, CHR 0x8E]"

definition fujin :: string where
  "fujin = [CHR 0xE9, CHR 0x99, CHR 0x84, CHR 0xE8, CHR 0xBF, CHR 0x91]"

text \<open>The names of the five groups, used in error messages.\<close>

definition name_sort_by :: string where
  "name_sort_by = [CHR 0xE6, CHR 0x8E, CHR 0x92, CHR 0xE5, CHR 0xBA, CHR 0x8F,
                   CHR 0xE4, CHR 0xBE, CHR 0x9D, CHR 0xE6, CHR 0x8D, CHR 0xAE]"

definition name_note_type :: string where
  "name_note_type = [CHR 0xE7, CHR 0xAC, CHR 0x94, CHR 0xE8, CHR 0xAE, CHR 0xB0,
                     CHR 0xE7, CHR 0xB1, CHR 0xBB, CHR 0xE5, CHR 0x9E, CHR 0x8B]"

definition name_publish_time :: string where
  "name_publish_time = [CHR 0xE5, CHR 0x8F, CHR 0x91, CHR 0xE5, CHR 0xB8, CHR 0x83,
                        CHR 0xE6, CHR 0x97, CHR 0xB6, CHR 0xE9, CHR 0x97, CHR 0xB4]"

definition name_search_scope :: string where
  "name_search_scope = [CHR 0xE6, CHR 0x90, CHR 0x9C, CHR 0xE7, CHR 0xB4, CHR 0xA2,
                        CHR 0xE8, CHR 0x8C, CHR 0x83, CHR 0xE5, CHR 0x9B, CHR 0xB4]"

definition name_location :: string where
  "name_location = [CHR 0xE4, CHR 0xBD, CHR 0x8D, CHR 0xE7, CHR 0xBD, CHR 0xAE,
                    CHR 0xE8, CHR 0xB7, CHR 0x9D, CHR 0xE7, CHR 0xA6, CHR 0xBB]"

text \<open>The fixed parts of the error messages of the translator.\<close>

definition msg_group :: string where
  "msg_group = [CHR 0xE7, CHR 0xAD, CHR 0x9B, CHR 0xE9, CHR 0x80, CHR 0x89, CHR 0xE7, CHR 0xBB, CHR 0x84, CHR '' '']"

definition msg_not_exist :: string where
  "msg_not_exist = [CHR '' '', CHR 0xE4, CHR 0xB8, CHR 0x8D, CHR 0xE5, CHR 0xAD, CHR 0x98, CHR 0xE5, CHR 0x9C, CHR 0xA8]"

definition msg_in_group :: string where
  "msg_in_group = CHR 0xE5 # CHR 0x9C # CHR 0xA8 # msg_group"

definition msg_text_not_found :: string where
  "msg_text_not_found = [CHR '' '', CHR 0xE4, CHR 0xB8, CHR 0xAD, CHR 0xE6, CHR 0x9C, CHR 0xAA,
     CHR 0xE6, CHR 0x89, CHR 0xBE, CHR 0xE5, CHR 0x88, CHR 0xB0, CHR 0xE6, CHR 0x96, CHR 0x87,
     CHR 0xE6, CHR 0x9C, CHR 0xAC, CHR '' '', CHR 0x27]"

definition msg_error :: string where
  "msg_error = [CHR 0xE9, CHR 0x94, CHR 0x99, CHR 0xE8, CHR 0xAF, CHR 0xAF, CHR '':'', CHR '' '']"

definition msg_bad_group :: string where
  "msg_bad_group = [CHR 0xE6, CHR 0x97, CHR 0xA0, CHR 0xE6, CHR 0x95, CHR 0x88, CHR 0xE7, CHR 0x9A, CHR 0x84,
     CHR 0xE7, CHR 0xAD, CHR 0x9B, CHR 0xE9, CHR 0x80, CHR 0x89, CHR 0xE7, CHR 0xBB, CHR 0x84,
     CHR 0xE7, CHR 0xB4, CHR 0xA2, CHR 0xE5, CHR 0xBC, CHR 0x95, CHR '' '']"

definition msg_range :: string where
  "msg_range = [CHR 0xE6, CHR 0x9C, CHR 0x89, CHR 0xE6, CHR 0x95, CHR 0x88, CHR 0xE8, CHR 0x8C, CHR 0x83,
     CHR 0xE5, CHR 0x9B, CHR 0xB4, CHR 0xE4, CHR 0xB8, CHR 0xBA, CHR '' '', CHR ''1'', CHR ''-'']"

definition msg_comma :: string where
  "msg_comma = [CHR 0xEF, CHR 0xBC, CHR 0x8C]"

definition msg_tag_index :: string where
  "msg_tag_index = [CHR '' '', CHR 0xE7, CHR 0x9A, CHR 0x84, CHR 0xE6, CHR 0xA0, CHR 0x87,
     CHR 0xE7, CHR 0xAD, CHR 0xBE, CHR 0xE7, CHR 0xB4, CHR 0xA2, CHR 0xE5, CHR 0xBC, CHR 0x95, CHR '' '']"

definition msg_out_of_range :: string where
  "msg_out_of_range = [CHR '' '', CHR 0xE8, CHR 0xB6, CHR 0x85, CHR 0xE5, CHR 0x87, CHR 0xBA,
     CHR 0xE8, CHR 0x8C, CHR 0x83, CHR 0xE5, CHR 0x9B, CHR 0xB4]"

lemmas label_defs =
  zonghe_def zuixin_def zuiduo_dianzan_def zuiduo_pinglun_def zuiduo_shoucang_def buxian_def
  shipin_def tuwen_def yitian_nei_def yizhou_nei_def bannian_nei_def yi_kanguo_def
  wei_kanguo_def yi_guanzhu_def tongcheng_def fujin_def

subsection \<open>Data model\<close>

text \<open>
  \<^verbatim>\<open>FilterOption\<close>: five fields of type \<^verbatim>\<open>Optional[Literal[...]]\<close>. The declared
  defaults are the first option of each group; \<^verbatim>\<open>FilterOption()\<close> is
  \<open>FilterOption_default\<close>. The translator reads the attributes of whatever object it is
  given, so a field is modelled as any string or \<^verbatim>\<open>None\<close>.
\<close>

record FilterOption =
  sort_by :: "string option"
  note_type :: "string option"
  publish_time :: "string option"
  search_scope :: "string option"
  location :: "string option"

definition FilterOption_default :: FilterOption where
  "FilterOption_default =
     \<lparr>sort_by = Some zonghe, note_type = Some buxian, publish_time = Some buxian,
      search_scope = Some buxian, location = Some buxian\<rparr>"

text \<open>\<^verbatim>\<open>InternalFilterOption\<close>; its field \<^verbatim>\<open>text\<close> is \<open>opt_text\<close> here.\<close>

record InternalFilterOption =
  filters_index :: int
  tags_index :: int
  opt_text :: string

definition IFO :: "int \<Rightarrow> int \<Rightarrow> string \<Rightarrow> InternalFilterOption" where
  "IFO f t x = \<lparr>filters_index = f, tags_index = t, opt_text = x\<rparr>"

definition FILTER_OPTIONS_MAP :: "int \<Rightarrow> InternalFilterOption list option" where
  "FILTER_OPTIONS_MAP = map_of
     [(1, [IFO 1 1 zonghe, IFO 1 2 zuixin, IFO 1 3 zuiduo_dianzan, IFO 1 4 zuiduo_pinglun,
           IFO 1 5 zuiduo_shoucang]),
      (2, [IFO 2 1 buxian, IFO 2 2 shipin, IFO 2 3 tuwen]),
      (3, [IFO 3 1 buxian, IFO 3 2 yitian_nei, IFO 3 3 yizhou_nei, IFO 3 4 bannian_nei]),
      (4, [IFO 4 1 buxian, IFO 4 2 yi_kanguo, IFO 4 3 wei_kanguo, IFO 4 4 yi_guanzhu]),
      (5, [IFO 5 1 buxian, IFO 5 2 tongcheng, IFO 5 3 fujin])]"

subsection \<open>Operations\<close>

text \<open>\<^verbatim>\<open>find_internal_option\<close>: the first entry of the group with the given text.\<close>

definition find_internal_option :: "int \<Rightarrow> string \<Rightarrow> exc + InternalFilterOption" where
  "find_internal_option fi txt =
     (case FILTER_OPTIONS_MAP fi of
        None \<Rightarrow> Inl (ValueError (msg_group @ str_int fi @ msg_not_exist))
      | Some options \<Rightarrow>
          (case find (\<lambda>option. opt_text option = txt) options of
             Some option \<Rightarrow> Inr option
           | None \<Rightarrow>
               Inl (ValueError (msg_in_group @ str_int fi @ msg_text_not_found @ txt @ [CHR 0x27]))))"

text \<open>
  The loop of \<^verbatim>\<open>convert_to_internal_filters\<close> over the list \<^verbatim>\<open>mapping\<close> of
  (value, index, name): a value that is \<^verbatim>\<open>None\<close> or empty is skipped, a lookup
  failure is raised again with the group's name in front.
\<close>

fun convert_loop ::
  "(string option \<times> int \<times> string) list \<Rightarrow> InternalFilterOption list \<Rightarrow>
   exc + InternalFilterOption list" where
  "convert_loop [] internal_filters = Inr internal_filters"
| "convert_loop ((v, i, name) # rest) internal_filters =
     (case v of
        None \<Rightarrow> convert_loop rest internal_filters
      | Some val \<Rightarrow>
          if val = [] then convert_loop rest internal_filters
          else (case find_internal_option i val of
                  Inr internal \<Rightarrow> convert_loop rest (internal_filters @ [internal])
                | Inl e \<Rightarrow>
                    if is_ValueError e then Inl (ValueError (name @ msg_error @ str_exc e))
                    else Inl e))"

definition mapping :: "FilterOption \<Rightarrow> (string option \<times> int \<times> string) list" where
  "mapping filter_option =
     [(sort_by filter_option, 1, name_sort_by),
      (note_type filter_option, 2, name_note_type),
      (publish_time filter_option, 3, name_publish_time),
      (search_scope filter_option, 4, name_search_scope),
      (location filter_option, 5, name_location)]"

definition convert_to_internal_filters :: "FilterOption \<Rightarrow> exc + InternalFilterOption list" where
  "convert_to_internal_filters filter_option = convert_loop (mapping filter_option) []"

definition validate_internal_filter_option :: "InternalFilterOption \<Rightarrow> exc + unit" where
  "validate_internal_filter_option filter_opt =
     (if filters_index filter_opt < 1 \<or> filters_index filter_opt > 5
      then Inl (ValueError (msg_bad_group @ str_int (filters_index filter_opt) @ msg_comma @ msg_range @ ''5''))
      else (case FILTER_OPTIONS_MAP (filters_index filter_opt) of
              None \<Rightarrow> Inl (ValueError (msg_group @ str_int (filters_index filter_opt) @ msg_not_exist))
            | Some options \<Rightarrow>
                let max_tag_index = int (length options) in
                if tags_index filter_opt < 1 \<or> tags_index filter_opt > max_tag_index
                then Inl (ValueError (msg_group @ str_int (filters_index filter_opt) @ msg_tag_index
                            @ str_int (tags_index filter_opt) @ msg_out_of_range @ msg_comma
                            @ msg_range @ str_int max_tag_index))
                else Inr ()))"

subsection \<open>The elision policy of the orchestrator (search.py, \_apply\_filters)\<close>

text \<open>
  The \<^verbatim>\<open>for\<close> loop of \<^verbatim>\<open>_apply_filters\<close> runs over the list it removes from. A
  Python list iterator keeps an index \<open>i\<close>: each round it stops when \<open>i\<close> has reached the
  current length, otherwise it yields element \<open>i\<close> and increments \<open>i\<close>. \<^verbatim>\<open>list.remove\<close>
  deletes the first element equal to its argument (\<^const>\<open>remove1\<close>). A
  \<^verbatim>\<open>ValueError\<close> of the validation is caught and the loop continues.
\<close>

function apply_loop :: "nat \<Rightarrow> InternalFilterOption list \<Rightarrow> exc + InternalFilterOption list" where
  "apply_loop i internal_filters =
     (if i < length internal_filters then
        let filter_option = internal_filters ! i in
        if tags_index filter_option \<noteq> 1 then
          (case validate_internal_filter_option filter_option of
             Inr u \<Rightarrow> apply_loop (i + 1) internal_filters
           | Inl e \<Rightarrow> if is_ValueError e then apply_loop (i + 1) internal_filters else Inl e)
        else apply_loop (i + 1) (remove1 filter_option internal_filters)
      else Inr internal_filters)"
  by pat_completeness auto
termination
  by (relation "measure (\<lambda>(i, xs). length xs - i)") (auto simp: length_remove1)

definition apply_filters :: "FilterOption \<Rightarrow> exc + InternalFilterOption list" where
  "apply_filters filters =
     bindE (convert_to_internal_filters filters) (\<lambda>internal_filters. apply_loop 0 internal_filters)"

text \<open>A selection in which only the field of group \<open>g\<close> is set, to the given label.\<close>

definition only_field :: "int \<Rightarrow> string \<Rightarrow> FilterOption" where
  "only_field g label =
     \<lparr>sort_by = (if g = 1 then Some label else None),
      note_type = (if g = 2 then Some label else None),
      publish_time = (if g = 3 then Some label else None),
      search_scope = (if g = 4 then Some label else None),
      location = (if g = 5 then Some label else None)\<rparr>"

text \<open>The name under which \<^verbatim>\<open>convert_to_internal_filters\<close> reports group \<open>g\<close>.\<close>

definition group_name :: "int \<Rightarrow> string" where
  "group_name g =
     (if g = 1 then name_sort_by else if g = 2 then name_note_type
      else if g = 3 then name_publish_time else if g = 4 then name_search_scope
      else name_location)"

text \<open>
  A field holds an unknown label when it is set (not \<^verbatim>\<open>None\<close>, not empty) to a string
  that is the text of no option of its group; \<open>unknown_message\<close> is the message of the
  error \<^verbatim>\<open>convert_to_internal_filters\<close> raises for it.
\<close>

definition unknown_label :: "string option \<Rightarrow> int \<Rightarrow> bool" where
  "unknown_label v g =
     (case v of
        None \<Rightarrow> False
      | Some label \<Rightarrow>
          label \<noteq> [] \<and>
          (case FILTER_OPTIONS_MAP g of
             None \<Rightarrow> False
           | Some options \<Rightarrow> label \<notin> opt_text ` set options))"

definition unknown_message :: "string \<Rightarrow> int \<Rightarrow> string \<Rightarrow> string" where
  "unknown_message name g label =
     name @ msg_error @ msg_in_group @ str_int g @ msg_text_not_found @ label @ [CHR 0x27]"

section \<open>Decoded JSON and the Python operations on it\<close>

text \<open>
  A value decoded from JSON (\<^verbatim>\<open>response.json()\<close>, \<^verbatim>\<open>json.loads\<close>): \<^verbatim>\<open>None\<close>, a
  \<^verbatim>\<open>bool\<close>, an \<^verbatim>\<open>int\<close>, a \<^verbatim>\<open>str\<close>, a \<^verbatim>\<open>list\<close> or a \<^verbatim>\<open>dict\<close> with string
  keys. A dict is the list of its items in order; its keys are distinct, and a lookup
  takes the first pair with the key. Numbers are integers: a JSON number with a fraction
  or an exponent, which Python decodes to a \<^verbatim>\<open>float\<close>, has no value of this type, and
  the records of the properties below are the values of this type.
\<close>

datatype json =
    JNull
  | JBool bool
  | JInt int
  | JStr string
  | JList "json list"
  | JDict "(string \<times> json) list"

text \<open>Truthiness (\<^verbatim>\<open>if x:\<close>).\<close>

fun truthy :: "json \<Rightarrow> bool" where
  "truthy JNull = False"
| "truthy (JBool b) = b"
| "truthy (JInt i) = (i \<noteq> 0)"
| "truthy (JStr s) = (s \<noteq> [])"
| "truthy (JList xs) = (xs \<noteq> [])"
| "truthy (JDict kvs) = (kvs \<noteq> [])"

text \<open>\<^verbatim>\<open>x.get(key, default)\<close>: only a dict has the method.\<close>

definition dict_get :: "(string \<times> json) list \<Rightarrow> string \<Rightarrow> json \<Rightarrow> json" where
  "dict_get kvs key dflt = (case map_of kvs key of Some v \<Rightarrow> v | None \<Rightarrow> dflt)"

fun py_get :: "json \<Rightarrow> string \<Rightarrow> json \<Rightarrow> exc + json" where
  "py_get (JDict kvs) key dflt = Inr (dict_get kvs key dflt)"
| "py_get x key dflt = Inl AttributeError"

text \<open>\<^verbatim>\<open>needle in haystack\<close> on strings: the needle occurs as a contiguous part.\<close>

fun starts_with :: "string \<Rightarrow> string \<Rightarrow> bool" where
  "starts_with [] s = True"
| "starts_with (c # cs) [] = False"
| "starts_with (c # cs) (d # ds) = (c = d \<and> starts_with cs ds)"

fun str_contains :: "string \<Rightarrow> string \<Rightarrow> bool" where
  "str_contains needle [] = (needle = [])"
| "str_contains needle (c # cs) = (starts_with needle (c # cs) \<or> str_contains needle cs)"

text \<open>\<^verbatim>\<open>key in x\<close> for a string key: a key of a dict, an element of a list, a part of
  a string; a \<^verbatim>\<open>TypeError\<close> on the other values.\<close>

fun py_in :: "string \<Rightarrow> json \<Rightarrow> exc + bool" where
  "py_in key (JDict kvs) = Inr (map_of kvs key \<noteq> None)"
| "py_in key (JList xs) = Inr (JStr key \<in> set xs)"
| "py_in key (JStr s) = Inr (str_contains key s)"
| "py_in key x = Inl TypeError"

text \<open>\<^verbatim>\<open>x[key]\<close> for a string key: a \<^verbatim>\<open>KeyError\<close> on a dict without it, a
  \<^verbatim>\<open>TypeError\<close> on every value that is not a dict.\<close>

fun py_item :: "json \<Rightarrow> string \<Rightarrow> exc + json" where
  "py_item (JDict kvs) key = (case map_of kvs key of Some v \<Rightarrow> Inr v | None \<Rightarrow> Inl KeyError)"
| "py_item x key = Inl TypeError"

text \<open>The characters of a string: a byte \<open>10xxxxxx\<close> continues the character before it.\<close>

definition is_continuation :: "char \<Rightarrow> bool" where
  "is_continuation c = ((of_char c :: nat) div 64 = 2)"

function utf8_chars :: "string \<Rightarrow> string list" where
  "utf8_chars [] = []"
| "utf8_chars (c # cs) = (c # takeWhile is_continuation cs) # utf8_chars (dropWhile is_continuation cs)"
  by pat_completeness auto
termination
  by (relation "measure length") (auto simp: length_dropWhile_le less_Suc_eq_le)

text \<open>\<^verbatim>\<open>len(x)\<close> and the elements a \<^verbatim>\<open>for\<close> loop over \<open>x\<close> visits.\<close>

fun py_len :: "json \<Rightarrow> exc + nat" where
  "py_len (JList xs) = Inr (length xs)"
| "py_len (JDict kvs) = Inr (length kvs)"
| "py_len (JStr s) = Inr (length (utf8_chars s))"
| "py_len x = Inl TypeError"

fun py_iter :: "json \<Rightarrow> exc + json list" where
  "py_iter (JList xs) = Inr xs"
| "py_iter (JDict kvs) = Inr (map (\<lambda>kv. JStr (fst kv)) kvs)"
| "py_iter (JStr s) = Inr (map JStr (utf8_chars s))"
| "py_iter x = Inl TypeError"

text \<open>
  \<^verbatim>\<open>str(x)\<close>: a string is itself, every other value is printed as \<^verbatim>\<open>repr\<close> prints
  it. In the \<^verbatim>\<open>repr\<close> of a string the quote is \<open>'\<close>, or \<open>"\<close> when the string has a
  \<open>'\<close> and no \<open>"\<close>; the backslash, the quote and the control characters of ASCII are
  escaped. A character above U+007F is printed as it is: Python also escapes those it
  does not count as printable (U+0085, U+200B and the like), so the printed form is that
  of Python for the strings without such a character.
\<close>

definition hex_digit :: "nat \<Rightarrow> char" where
  "hex_digit d =
     (if d < 10 then digit_char d else if d = 10 then CHR ''a'' else if d = 11 then CHR ''b''
      else if d = 12 then CHR ''c'' else if d = 13 then CHR ''d'' else if d = 14 then CHR ''e''
      else CHR ''f'')"

definition repr_char :: "char \<Rightarrow> char \<Rightarrow> string" where
  "repr_char quote c =
     (if c = CHR 0x5C then [CHR 0x5C, CHR 0x5C]
      else if c = quote then [CHR 0x5C, quote]
      else if c = CHR 0x09 then [CHR 0x5C, CHR ''t'']
      else if c = CHR 0x0A then [CHR 0x5C, CHR ''n'']
      else if c = CHR 0x0D then [CHR 0x5C, CHR ''r'']
      else if (of_char c :: nat) < 32 \<or> c = CHR 0x7F
        then [CHR 0x5C, CHR ''x'', hex_digit ((of_char c :: nat) div 16), hex_digit ((of_char c :: nat) mod 16)]
      else [c])"

definition repr_str :: "string \<Rightarrow> string" where
  "repr_str s =
     (let quote = (if CHR 0x27 \<in> set s \<and> CHR 0x22 \<notin> set s then CHR 0x22 else CHR 0x27)
      in [quote] @ concat (map (repr_char quote) s) @ [quote])"

fun join :: "string \<Rightarrow> string list \<Rightarrow> string" where
  "join sep [] = []"
| "join sep [x] = x"
| "join sep (x # y # ys) = x @ sep @ join sep (y # ys)"

fun py_repr :: "json \<Rightarrow> string" where
  "py_repr JNull = ''None''"
| "py_repr (JBool b) = (if b then ''True'' else ''False'')"
| "py_repr (JInt i) = str_int i"
| "py_repr (JStr s) = repr_str s"
| "py_repr (JList xs) = ''['' @ join '', '' (map py_repr xs) @ '']''"
| "py_repr (JDict kvs) =
     ''{'' @ join '', '' (map (\<lambda>(k, v). repr_str k @ '': '' @ py_repr v) kvs) @ ''}''"

fun py_str :: "json \<Rightarrow> string" where
  "py_str (JStr s) = s"
| "py_str x = py_repr x"

section \<open>The item model (package config)\<close>

text \<open>
  Modelled from the spec: the pydantic classes \<^verbatim>\<open>User\<close>, \<^verbatim>\<open>InteractInfo\<close>,
  \<^verbatim>\<open>Cover\<close>, \<^verbatim>\<open>Video\<close>, \<^verbatim>\<open>NoteCard\<close>, \<^verbatim>\<open>Feed\<close> and \<^verbatim>\<open>SearchResult\<close> of the
  package \<^verbatim>\<open>config\<close> are not under src/. Their fields are the keyword arguments the
  normalizer passes; their types follow section 3 of the spec (ContentItem, UserRef,
  InteractionCounts, CoverImage, VideoInfo): an id, a name, a title, a URL is a string, a
  dimension or a duration an integer, \<^verbatim>\<open>liked\<close> and \<^verbatim>\<open>collected\<close> booleans, the counts
  display strings, a media or stream descriptor an object, a stream list a sequence, and an
  optional field also admits \<^verbatim>\<open>None\<close>. Constructing a model with a value of another
  type raises \<^verbatim>\<open>ValidationError\<close>. A string field admits every string, the empty one
  too: section 4.2 has the normalizer fall back to the empty string for an absent key,
  and the spec describes no validation of a field beyond its type. The invariant that
  section 3 states for the id of an item is a property of the normalizer and the
  accumulator, examined below; it is not built into the classes. The fields \<^verbatim>\<open>type\<close> and \<^verbatim>\<open>id\<close> are
  \<open>card_type\<close> and \<open>feed_id\<close> here, the dimensions of a video \<open>video_width\<close> and
  \<open>video_height\<close>.
\<close>

record User =
  user_id :: string
  nickname :: string
  avatar :: string
  desc :: string
  gender :: json
  ip_location :: json

record InteractInfo =
  liked :: bool
  liked_count :: string
  collected :: bool
  collected_count :: string
  comment_count :: string
  share_count :: string

record Cover =
  url :: string
  width :: int
  height :: int
  file_id :: string

record Video =
  media :: "(string \<times> json) list"
  video_id :: string
  duration :: int
  video_width :: int
  video_height :: int
  master_url :: string
  backup_urls :: "json list"
  stream :: "(string \<times> json) list"
  h264 :: "json list"
  h265 :: "json list"
  av1 :: "json list"

record NoteCard =
  card_type :: string
  display_title :: string
  user :: User
  interact_info :: InteractInfo
  cover :: Cover
  images_list :: "json list option"
  video :: "Video option"

record Feed =
  feed_id :: string
  model_type :: string
  note_card :: NoteCard
  track_id :: "string option"
  xsec_token :: "string option"

text \<open>The validation of one field.\<close>

fun as_str :: "json \<Rightarrow> exc + string" where
  "as_str (JStr s) = Inr s"
| "as_str x = Inl ValidationError"

fun as_opt_str :: "json \<Rightarrow> exc + string option" where
  "as_opt_str JNull = Inr None"
| "as_opt_str (JStr s) = Inr (Some s)"
| "as_opt_str x = Inl ValidationError"

fun as_int :: "json \<Rightarrow> exc + int" where
  "as_int (JInt i) = Inr i"
| "as_int x = Inl ValidationError"

fun as_bool :: "json \<Rightarrow> exc + bool" where
  "as_bool (JBool b) = Inr b"
| "as_bool x = Inl ValidationError"

fun as_list :: "json \<Rightarrow> exc + json list" where
  "as_list (JList xs) = Inr xs"
| "as_list x = Inl ValidationError"

fun as_dict :: "json \<Rightarrow> exc + (string \<times> json) list" where
  "as_dict (JDict kvs) = Inr kvs"
| "as_dict x = Inl ValidationError"

text \<open>The constructors, with the keyword arguments in the order of the calls.\<close>

definition new_User :: "json \<Rightarrow> json \<Rightarrow> json \<Rightarrow> json \<Rightarrow> json \<Rightarrow> json \<Rightarrow> exc + User" where
  "new_User a_user_id a_nickname a_avatar a_desc a_gender a_ip_location =
     bindE (as_str a_user_id) (\<lambda>v1.
     bindE (as_str a_nickname) (\<lambda>v2.
     bindE (as_str a_avatar) (\<lambda>v3.
     bindE (as_str a_desc) (\<lambda>v4.
     Inr \<lparr>user_id = v1, nickname = v2, avatar = v3, desc = v4,
          gender = a_gender, ip_location = a_ip_location\<rparr>))))"

definition new_InteractInfo ::
  "json \<Rightarrow> string \<Rightarrow> json \<Rightarrow> string \<Rightarrow> string \<Rightarrow> string \<Rightarrow> exc + InteractInfo" where
  "new_InteractInfo a_liked a_liked_count a_collected a_collected_count a_comment_count a_share_count =
     bindE (as_bool a_liked) (\<lambda>v1.
     bindE (as_bool a_collected) (\<lambda>v2.
     Inr \<lparr>liked = v1, liked_count = a_liked_count, collected = v2,
          collected_count = a_collected_count, comment_count = a_comment_count,
          share_count = a_share_count\<rparr>))"

definition new_Cover :: "json \<Rightarrow> json \<Rightarrow> json \<Rightarrow> json \<Rightarrow> exc + Cover" where
  "new_Cover a_url a_width a_height a_file_id =
     bindE (as_str a_url) (\<lambda>v1.
     bindE (as_int a_width) (\<lambda>v2.
     bindE (as_int a_height) (\<lambda>v3.
     bindE (as_str a_file_id) (\<lambda>v4.
     Inr \<lparr>url = v1, width = v2, height = v3, file_id = v4\<rparr>))))"

definition new_Video ::
  "json \<Rightarrow> json \<Rightarrow> json \<Rightarrow> json \<Rightarrow> json \<Rightarrow> json \<Rightarrow> json \<Rightarrow> json \<Rightarrow> json \<Rightarrow> json \<Rightarrow> json \<Rightarrow>
   exc + Video" where
  "new_Video a_media a_video_id a_duration a_width a_height a_master_url a_backup_urls a_stream
     a_h264 a_h265 a_av1 =
     bindE (as_dict a_media) (\<lambda>v1.
     bindE (as_str a_video_id) (\<lambda>v2.
     bindE (as_int a_duration) (\<lambda>v3.
     bindE (as_int a_width) (\<lambda>v4.
     bindE (as_int a_height) (\<lambda>v5.
     bindE (as_str a_master_url) (\<lambda>v6.
     bindE (as_list a_backup_urls) (\<lambda>v7.
     bindE (as_dict a_stream) (\<lambda>v8.
     bindE (as_list a_h264) (\<lambda>v9.
     bindE (as_list a_h265) (\<lambda>v10.
     bindE (as_list a_av1) (\<lambda>v11.
     Inr \<lparr>media = v1, video_id = v2, duration = v3, video_width = v4, video_height = v5,
          master_url = v6, backup_urls = v7, stream = v8, h264 = v9, h265 = v10,
          av1 = v11\<rparr>)))))))))))"

definition new_NoteCard ::
  "json \<Rightarrow> json \<Rightarrow> User \<Rightarrow> InteractInfo \<Rightarrow> Cover \<Rightarrow> json list option \<Rightarrow> Video option \<Rightarrow>
   exc + NoteCard" where
  "new_NoteCard a_type a_display_title a_user a_interact_info a_cover a_images_list a_video =
     bindE (as_str a_type) (\<lambda>v1.
     bindE (as_str a_display_title) (\<lambda>v2.
     Inr \<lparr>card_type = v1, display_title = v2, user = a_user, interact_info = a_interact_info,
          cover = a_cover, images_list = a_images_list, video = a_video\<rparr>))"

definition new_Feed :: "json \<Rightarrow> json \<Rightarrow> NoteCard \<Rightarrow> json \<Rightarrow> json \<Rightarrow> exc + Feed" where
  "new_Feed a_id a_model_type a_note_card a_track_id a_xsec_token =
     bindE (as_str a_id) (\<lambda>v1.
     bindE (as_str a_model_type) (\<lambda>v2.
     bindE (as_opt_str a_track_id) (\<lambda>v3.
     bindE (as_opt_str a_xsec_token) (\<lambda>v4.
     Inr \<lparr>feed_id = v1, model_type = v2, note_card = a_note_card, track_id = v3,
          xsec_token = v4\<rparr>))))"

text \<open>
  Modelled from the spec: \<^verbatim>\<open>SearchResult\<close> (HarvestResult in the spec) has the fields
  \<^verbatim>\<open>items\<close>, \<^verbatim>\<open>has_more\<close> and \<^verbatim>\<open>total\<close> of section 4.4. The source calls the class in
  two ways: with these three keywords, and, when the filter selection is rejected, with
  \<^verbatim>\<open>success\<close>, \<^verbatim>\<open>message\<close> and \<^verbatim>\<open>feeds\<close>. A keyword a call does not pass is
  \<^verbatim>\<open>None\<close> for the latter three; for the former three it is the value the spec gives an
  aborted search (section 4.4 step 3 and section 7): no items, \<^verbatim>\<open>has_more\<close> false,
  \<^verbatim>\<open>total\<close> 0.
\<close>

record SearchResult =
  items :: "Feed list"
  has_more :: bool
  total :: int
  success :: "bool option"
  message :: "string option"
  feeds :: "Feed list option"

definition SearchResult_items :: "Feed list \<Rightarrow> bool \<Rightarrow> int \<Rightarrow> SearchResult" where
  "SearchResult_items a_items a_has_more a_total =
     \<lparr>items = a_items, has_more = a_has_more, total = a_total, success = None, message = None,
      feeds = None\<rparr>"

definition SearchResult_failure :: "bool \<Rightarrow> string \<Rightarrow> Feed list \<Rightarrow> SearchResult" where
  "SearchResult_failure a_success a_message a_feeds =
     \<lparr>items = [], has_more = False, total = 0, success = Some a_success,
      message = Some a_message, feeds = Some a_feeds\<rparr>"

section \<open>The item normalizer (search.py, \_convert\_item\_to\_feed)\<close>

definition build_user :: "json \<Rightarrow> exc + User" where
  "build_user user_data =
     bindE (py_get user_data ''userId'' (JStr [])) (\<lambda>a_user_id.
     bindE (py_get user_data ''nickName'' (JStr [])) (\<lambda>nick_name.
     bindE (py_get user_data ''nickname'' nick_name) (\<lambda>a_nickname.
     bindE (py_get user_data ''avatar'' (JStr [])) (\<lambda>a_avatar.
     bindE (py_get user_data ''desc'' (JStr [])) (\<lambda>a_desc.
     bindE (py_get user_data ''gender'' JNull) (\<lambda>a_gender.
     bindE (py_get user_data ''ipLocation'' JNull) (\<lambda>a_ip_location.
     new_User a_user_id a_nickname a_avatar a_desc a_gender a_ip_location)))))))"

definition build_interact_info :: "json \<Rightarrow> exc + InteractInfo" where
  "build_interact_info interact_data =
     bindE (py_get interact_data ''liked'' (JBool False)) (\<lambda>a_liked.
     bindE (py_get interact_data ''likedCount'' (JStr ''0'')) (\<lambda>a_liked_count.
     bindE (py_get interact_data ''collected'' (JBool False)) (\<lambda>a_collected.
     bindE (py_get interact_data ''collectedCount'' (JStr ''0'')) (\<lambda>a_collected_count.
     bindE (py_get interact_data ''commentCount'' (JStr ''0'')) (\<lambda>a_comment_count.
     bindE (py_get interact_data ''sharedCount'' (JStr ''0'')) (\<lambda>a_share_count.
     new_InteractInfo a_liked (py_str a_liked_count) a_collected (py_str a_collected_count)
       (py_str a_comment_count) (py_str a_share_count)))))))"

definition build_cover :: "json \<Rightarrow> exc + Cover" where
  "build_cover cover_data =
     bindE (py_get cover_data ''url'' (JStr [])) (\<lambda>a_url.
     bindE (py_get cover_data ''width'' (JInt 0)) (\<lambda>a_width.
     bindE (py_get cover_data ''height'' (JInt 0)) (\<lambda>a_height.
     bindE (py_get cover_data ''fileId'' (JStr [])) (\<lambda>a_file_id.
     new_Cover a_url a_width a_height a_file_id))))"

definition build_video :: "json \<Rightarrow> exc + Video option" where
  "build_video video_data =
     (if truthy video_data then
        bindE (py_get video_data ''media'' (JDict [])) (\<lambda>a_media.
        bindE (py_get video_data ''videoId'' (JStr [])) (\<lambda>a_video_id.
        bindE (py_get video_data ''duration'' (JInt 0)) (\<lambda>a_duration.
        bindE (py_get video_data ''width'' (JInt 0)) (\<lambda>a_width.
        bindE (py_get video_data ''height'' (JInt 0)) (\<lambda>a_height.
        bindE (py_get video_data ''masterUrl'' (JStr [])) (\<lambda>a_master_url.
        bindE (py_get video_data ''backupUrls'' (JList [])) (\<lambda>a_backup_urls.
        bindE (py_get video_data ''stream'' (JDict [])) (\<lambda>a_stream.
        bindE (py_get video_data ''h264'' (JList [])) (\<lambda>a_h264.
        bindE (py_get video_data ''h265'' (JList [])) (\<lambda>a_h265.
        bindE (py_get video_data ''av1'' (JList [])) (\<lambda>a_av1.
        bindE (new_Video a_media a_video_id a_duration a_width a_height a_master_url
                 a_backup_urls a_stream a_h264 a_h265 a_av1) (\<lambda>v. Inr (Some v)))))))))))))
      else Inr None)"

text \<open>The body of the \<^verbatim>\<open>try\<close> block of \<^verbatim>\<open>_convert_item_to_feed\<close>.\<close>

definition convert_item_body :: "json \<Rightarrow> exc + Feed" where
  "convert_item_body item =
     bindE (py_get item ''noteCard'' (JDict [])) (\<lambda>note_card_data.
     bindE (py_get note_card_data ''user'' (JDict [])) (\<lambda>user_data.
     bindE (py_get note_card_data ''interactInfo'' (JDict [])) (\<lambda>interact_data.
     bindE (py_get note_card_data ''cover'' (JDict [])) (\<lambda>cover_data.
     bindE (py_get note_card_data ''video'' JNull) (\<lambda>video_data.
     bindE (build_user user_data) (\<lambda>a_user.
     bindE (build_interact_info interact_data) (\<lambda>a_interact_info.
     bindE (build_cover cover_data) (\<lambda>a_cover.
     bindE (build_video video_data) (\<lambda>a_video.
     bindE (py_get note_card_data ''type'' (JStr [])) (\<lambda>a_type.
     bindE (py_get note_card_data ''displayTitle'' (JStr [])) (\<lambda>a_display_title.
     bindE (new_NoteCard a_type a_display_title a_user a_interact_info a_cover None a_video)
       (\<lambda>a_note_card.
     bindE (py_get item ''id'' (JStr [])) (\<lambda>a_id.
     bindE (py_get item ''modelType'' (JStr [])) (\<lambda>a_model_type.
     bindE (py_get item ''trackId'' JNull) (\<lambda>a_track_id.
     bindE (py_get item ''xsecToken'' JNull) (\<lambda>a_xsec_token.
     new_Feed a_id a_model_type a_note_card a_track_id a_xsec_token))))))))))))))))"

text \<open>\<^verbatim>\<open>_convert_item_to_feed\<close>: \<^verbatim>\<open>except Exception\<close> turns every exception of the
  body into the result \<^verbatim>\<open>None\<close>.\<close>

definition convert_item_to_feed :: "json \<Rightarrow> Feed option" where
  "convert_item_to_feed item =
     (case convert_item_body item of Inr feed \<Rightarrow> Some feed | Inl e \<Rightarrow> None)"

text \<open>The card of a record without \<^verbatim>\<open>noteCard\<close>: every field at the default the
  normalizer reads it with.\<close>

definition default_NoteCard :: NoteCard where
  "default_NoteCard =
     \<lparr>card_type = [], display_title = [],
      user = \<lparr>user_id = [], nickname = [], avatar = [], desc = [], gender = JNull,
               ip_location = JNull\<rparr>,
      interact_info = \<lparr>liked = False, liked_count = ''0'', collected = False,
                        collected_count = ''0'', comment_count = ''0'', share_count = ''0''\<rparr>,
      cover = \<lparr>url = [], width = 0, height = 0, file_id = []\<rparr>,
      images_list = None, video = None\<rparr>"

text \<open>An item is normalized when it is the normalizer's result for some raw record.\<close>

definition is_normalized :: "Feed \<Rightarrow> bool" where
  "is_normalized f = (\<exists>item. convert_item_to_feed item = Some f)"

section \<open>The harvest orchestrator (search.py, SearchAction.search)\<close>

subsection \<open>The page and the session\<close>

text \<open>
  A response handed to the listener: its URL, its status and what \<^verbatim>\<open>response.json()\<close>
  gives (\<open>None\<close> when it raises).
\<close>

record response =
  resp_url :: string
  resp_status :: int
  resp_json :: "json option"

text \<open>
  What \<^verbatim>\<open>page.evaluate\<close> returned for the state blob: a falsy value (\<^verbatim>\<open>None\<close> or the
  empty string), or a non-empty string, given by what \<^verbatim>\<open>json.loads\<close> makes of it
  (\<open>None\<close> when it raises \<^verbatim>\<open>JSONDecodeError\<close>).
\<close>

datatype js_value = JsFalsy | JsText "json option"

datatype seed = SeedInt int | SeedStr string

text \<open>The calls on the page (and the pacing utility), in the order they are made.\<close>

datatype action =
    Goto string
  | WaitForLoadState
  | HoverFilter
  | WaitForFilterPanel
  | Click string
  | RandomDelay seed
  | OnResponse
  | WaitForInitialState
  | EvaluateInitialState
  | ScrollToBottom
  | WaitForPageStable
  | RemoveListener

text \<open>
  One awaited call, as the environment decides it: the responses that reach the listener
  while the call is pending, in the order their handlers run, then either an exception or
  the value returned. An environment is the sequence of these events, one per awaited
  call: a fixed interleaving of the orchestrator and the listener.
\<close>

record event =
  arrivals :: "response list"
  raises :: "exc option"
  returns :: js_value

text \<open>
  The locals \<^verbatim>\<open>all_feeds\<close> and \<^verbatim>\<open>seen_ids\<close> shared by \<^verbatim>\<open>search\<close> and its listener,
  and the state of the page: whether the listener is registered, the number of awaited
  calls so far, and the calls made.
\<close>

record session =
  all_feeds :: "Feed list"
  seen_ids :: "string set"
  listening :: bool
  clock :: nat
  actions :: "action list"

subsection \<open>The dedup accumulator\<close>

text \<open>Lines 62 to 64 and 145 to 147: an item is appended unless its id has been seen.\<close>

definition offer :: "Feed \<Rightarrow> session \<Rightarrow> session" where
  "offer feed s =
     (if feed_id feed \<notin> seen_ids s
      then s\<lparr>seen_ids := insert (feed_id feed) (seen_ids s), all_feeds := all_feeds s @ [feed]\<rparr>
      else s)"

fun offer_all :: "Feed list \<Rightarrow> session \<Rightarrow> session" where
  "offer_all [] s = s"
| "offer_all (feed # rest) s = offer_all rest (offer feed s)"

text \<open>The first item of each id, in order of first occurrence.\<close>

fun first_by_id :: "Feed list \<Rightarrow> Feed list" where
  "first_by_id [] = []"
| "first_by_id (x # xs) = x # first_by_id (filter (\<lambda>y. feed_id y \<noteq> feed_id x) xs)"

subsection \<open>The listener\<close>

text \<open>The loop of the listener over the items of one response. A \<^verbatim>\<open>Feed\<close> object
  is truthy, so \<^verbatim>\<open>if feed and ...\<close> only excludes \<^verbatim>\<open>None\<close>.\<close>

fun offer_items :: "json list \<Rightarrow> session \<Rightarrow> session" where
  "offer_items [] s = s"
| "offer_items (item # rest) s =
     (case convert_item_to_feed item of
        Some feed \<Rightarrow> offer_items rest (offer feed s)
      | None \<Rightarrow> offer_items rest s)"

text \<open>The inner \<^verbatim>\<open>try\<close> block of \<^verbatim>\<open>handle_response\<close>, after the body is decoded.\<close>

definition handle_data :: "json \<Rightarrow> session \<Rightarrow> exc + session" where
  "handle_data data s =
     (if \<not> truthy data then Inr s else
      bindE (py_in ''data'' data) (\<lambda>has_data. if \<not> has_data then Inr s else
      bindE (py_item data ''data'') (\<lambda>inner.
      bindE (py_in ''items'' inner) (\<lambda>has_items. if \<not> has_items then Inr s else
      bindE (py_item inner ''items'') (\<lambda>its.
      bindE (py_len its) (\<lambda>n.
      bindE (py_iter its) (\<lambda>elems.
      Inr (offer_items elems s))))))))"

definition handle_response :: "response \<Rightarrow> session \<Rightarrow> session" where
  "handle_response resp s =
     (if str_contains ''/api/sns/web/v1/search/notes'' (resp_url resp) \<and> resp_status resp = 200
      then (case resp_json resp of
              None \<Rightarrow> s
            | Some data \<Rightarrow> (case handle_data data s of Inr s' \<Rightarrow> s' | Inl e \<Rightarrow> s))
      else s)"

fun deliver :: "response list \<Rightarrow> session \<Rightarrow> session" where
  "deliver [] s = s"
| "deliver (resp # rest) s = deliver rest (handle_response resp s)"

subsection \<open>Awaited calls\<close>

definition await :: "(nat \<Rightarrow> event) \<Rightarrow> action \<Rightarrow> session \<Rightarrow> (exc \<times> session) + (js_value \<times> session)" where
  "await env a s =
     (let ev = env (clock s);
          s1 = (if listening s then deliver (arrivals ev) s else s);
          s2 = s1\<lparr>clock := clock s + 1, actions := actions s @ [a]\<rparr>
      in case raises ev of Some e \<Rightarrow> Inl (e, s2) | None \<Rightarrow> Inr (returns ev, s2))"

definition await_unit :: "(nat \<Rightarrow> event) \<Rightarrow> action \<Rightarrow> session \<Rightarrow> (exc \<times> session) + session" where
  "await_unit env a s = (case await env a s of Inl es \<Rightarrow> Inl es | Inr (v, s') \<Rightarrow> Inr s')"

definition then_do ::
  "(exc \<times> session) + session \<Rightarrow> (session \<Rightarrow> (exc \<times> session) + session) \<Rightarrow> (exc \<times> session) + session" where
  "then_do m f = (case m of Inl es \<Rightarrow> Inl es | Inr s \<Rightarrow> f s)"

subsection \<open>The search URL\<close>

text \<open>\<^verbatim>\<open>urlencode\<close> quotes each byte that is not a letter, a digit or one of
  \<open>_.-~\<close>; a space becomes \<open>+\<close>.\<close>

definition hex_upper :: "nat \<Rightarrow> char" where
  "hex_upper d =
     (if d < 10 then digit_char d else if d = 10 then CHR ''A'' else if d = 11 then CHR ''B''
      else if d = 12 then CHR ''C'' else if d = 13 then CHR ''D'' else if d = 14 then CHR ''E''
      else CHR ''F'')"

definition quote_plus_char :: "char \<Rightarrow> string" where
  "quote_plus_char c =
     (let n = (of_char c :: nat) in
      if (48 \<le> n \<and> n \<le> 57) \<or> (65 \<le> n \<and> n \<le> 90) \<or> (97 \<le> n \<and> n \<le> 122)
         \<or> c = CHR ''_'' \<or> c = CHR ''.'' \<or> c = CHR ''-'' \<or> c = CHR ''~'' then [c]
      else if c = CHR '' '' then ''+''
      else [CHR ''%'', hex_upper (n div 16), hex_upper (n mod 16)])"

definition make_search_url :: "string \<Rightarrow> string" where
  "make_search_url keyword =
     ''https://www.xiaohongshu.com/search_result?'' @ ''keyword='' @ concat (map quote_plus_char keyword)
       @ ''&source=web_explore_feed''"

subsection \<open>The state blob\<close>

text \<open>The \<^verbatim>\<open>try\<close> block of \<^verbatim>\<open>_parse_search_results_from_state\<close> after
  \<^verbatim>\<open>json.loads\<close>. Saving the data to files changes no value and raises nothing.\<close>

definition parse_state_data :: "json \<Rightarrow> exc + SearchResult" where
  "parse_state_data state_data =
     bindE (py_get state_data ''search'' (JDict [])) (\<lambda>search_data.
     bindE (py_get search_data ''feeds'' (JDict [])) (\<lambda>feeds_data.
     bindE (py_get feeds_data ''_value'' (JList [])) (\<lambda>feeds_value.
     bindE (py_len feeds_value) (\<lambda>n.
     bindE (py_iter feeds_value) (\<lambda>elems.
     let feeds = List.map_filter convert_item_to_feed elems in
     Inr (SearchResult_items feeds (n \<ge> 20) (int (length feeds))))))))"

definition parse_search_results_from_state :: "json option \<Rightarrow> SearchResult" where
  "parse_search_results_from_state loads =
     (case loads of
        None \<Rightarrow> SearchResult_items [] False 0
      | Some state_data \<Rightarrow>
          (case parse_state_data state_data of
             Inr r \<Rightarrow> r
           | Inl e \<Rightarrow> SearchResult_items [] False 0))"

subsection \<open>The stages of search\<close>

datatype outcome = Raised exc session | Returned SearchResult session | Continue session

definition navigate :: "(nat \<Rightarrow> event) \<Rightarrow> string \<Rightarrow> session \<Rightarrow> (exc \<times> session) + session" where
  "navigate env keyword s =
     then_do (await_unit env (Goto (make_search_url keyword)) s) (\<lambda>s.
     await_unit env WaitForLoadState s)"

definition selector :: "InternalFilterOption \<Rightarrow> string" where
  "selector filter_option =
     ''div.filter-panel div.filters:nth-child('' @ str_int (filters_index filter_option)
       @ '') div.tags:nth-child('' @ str_int (tags_index filter_option) @ '')''"

fun click_filters ::
  "(nat \<Rightarrow> event) \<Rightarrow> InternalFilterOption list \<Rightarrow> session \<Rightarrow> (exc \<times> session) + session" where
  "click_filters env [] s = Inr s"
| "click_filters env (filter_option # rest) s =
     then_do (await_unit env (Click (selector filter_option)) s) (\<lambda>s.
     then_do (await_unit env (RandomDelay (SeedInt (filters_index filter_option))) s) (\<lambda>s.
     click_filters env rest s))"

text \<open>Lines 81 to 100: the \<^verbatim>\<open>try\<close> block for the filters and its handler for
  \<^verbatim>\<open>ValueError\<close>.\<close>

definition filter_block :: "(nat \<Rightarrow> event) \<Rightarrow> FilterOption \<Rightarrow> session \<Rightarrow> outcome" where
  "filter_block env filters s =
     (case (case apply_filters filters of
              Inl e \<Rightarrow> Inl (e, s)
            | Inr internal_filters \<Rightarrow>
                then_do (await_unit env HoverFilter s) (\<lambda>s.
                then_do (await_unit env WaitForFilterPanel s) (\<lambda>s.
                click_filters env internal_filters s)))
      of Inr s' \<Rightarrow> Continue s'
       | Inl (e, s') \<Rightarrow>
           if is_ValueError e then Returned (SearchResult_failure False (str_exc e) []) s'
           else Raised e s')"

text \<open>Lines 108 to 150: the first screen, inside \<^verbatim>\<open>try ... except Exception\<close>, which
  only logs.\<close>

definition initial_state_pass :: "(nat \<Rightarrow> event) \<Rightarrow> session \<Rightarrow> session" where
  "initial_state_pass env s =
     (case await env WaitForInitialState s of
        Inl (e, s1) \<Rightarrow> s1
      | Inr (v, s1) \<Rightarrow>
          (case await env EvaluateInitialState s1 of
             Inl (e, s2) \<Rightarrow> s2
           | Inr (result, s2) \<Rightarrow>
               (case result of
                  JsFalsy \<Rightarrow> s2
                | JsText loads \<Rightarrow> offer_all (items (parse_search_results_from_state loads)) s2)))"

text \<open>Lines 152 to 166: one round of the scroll loop, and the loop.\<close>

definition scroll_once :: "(nat \<Rightarrow> event) \<Rightarrow> string \<Rightarrow> session \<Rightarrow> (exc \<times> session) + session" where
  "scroll_once env keyword s =
     then_do (await_unit env ScrollToBottom s) (\<lambda>s.
     then_do (await_unit env (RandomDelay (SeedStr keyword)) s) (\<lambda>s.
     then_do (await_unit env WaitForLoadState s) (\<lambda>s.
     await_unit env WaitForPageStable s)))"

partial_function (option) scroll_loop ::
  "(nat \<Rightarrow> event) \<Rightarrow> string \<Rightarrow> int \<Rightarrow> session \<Rightarrow> ((exc \<times> session) + session) option" where
  "scroll_loop env keyword max_items s =
     (if int (length (all_feeds s)) < max_items then
        (case scroll_once env keyword s of
           Inl es \<Rightarrow> Some (Inl es)
         | Inr s' \<Rightarrow> scroll_loop env keyword max_items s')
      else Some (Inr s))"

declare scroll_loop.simps [code]

text \<open>The slice \<^verbatim>\<open>xs[:m]\<close>: a negative \<open>m\<close> counts from the end.\<close>

definition py_slice_to :: "'a list \<Rightarrow> int \<Rightarrow> 'a list" where
  "py_slice_to xs m = (if 0 \<le> m then take (nat m) xs else take (length xs - nat (- m)) xs)"

text \<open>Lines 167 to 176: the truncation and the result of a completed search.\<close>

definition finalize :: "int \<Rightarrow> Feed list \<Rightarrow> SearchResult" where
  "finalize max_items feeds0 =
     (let feeds1 = (if int (length feeds0) > max_items then py_slice_to feeds0 max_items else feeds0)
      in SearchResult_items feeds1 True (int (length feeds1)))"

definition new_session :: session where
  "new_session = \<lparr>all_feeds = [], seen_ids = {}, listening = False, clock = 0, actions = []\<rparr>"

text \<open>The \<^verbatim>\<open>try\<close> block of \<^verbatim>\<open>search\<close>: it raises, or it returns a result. The
  result is \<open>None\<close> when the scroll loop does not end.\<close>

definition search_try ::
  "(nat \<Rightarrow> event) \<Rightarrow> string \<Rightarrow> int \<Rightarrow> FilterOption option \<Rightarrow>
   ((exc \<times> session) + (SearchResult \<times> session)) option" where
  "search_try env keyword max_items filters =
     (case navigate env keyword new_session of
        Inl es \<Rightarrow> Some (Inl es)
      | Inr s1 \<Rightarrow>
          (case (case filters of None \<Rightarrow> Continue s1 | Some f \<Rightarrow> filter_block env f s1) of
             Raised e s \<Rightarrow> Some (Inl (e, s))
           | Returned r s \<Rightarrow> Some (Inr (r, s))
           | Continue s2 \<Rightarrow>
               (case await_unit env WaitForLoadState
                       (s2\<lparr>listening := True, actions := actions s2 @ [OnResponse]\<rparr>) of
                  Inl es \<Rightarrow> Some (Inl es)
                | Inr s3 \<Rightarrow>
                    (case scroll_loop env keyword max_items (initial_state_pass env s3) of
                       None \<Rightarrow> None
                     | Some (Inl es) \<Rightarrow> Some (Inl es)
                     | Some (Inr s4) \<Rightarrow> Some (Inr (finalize max_items (all_feeds s4), s4))))))"

text \<open>The \<^verbatim>\<open>finally\<close> clause: the listener is removed on every path.\<close>

definition remove_listener :: "session \<Rightarrow> session" where
  "remove_listener s = s\<lparr>listening := False, actions := actions s @ [RemoveListener]\<rparr>"

text \<open>\<^verbatim>\<open>search\<close>: the two handlers of the outer \<^verbatim>\<open>try\<close>, for
  \<^verbatim>\<open>PlaywrightTimeoutError\<close> and for every other \<^verbatim>\<open>Exception\<close>, and the
  \<^verbatim>\<open>finally\<close> clause. The result comes with the session as the call leaves it.\<close>

definition search ::
  "(nat \<Rightarrow> event) \<Rightarrow> string \<Rightarrow> int \<Rightarrow> FilterOption option \<Rightarrow> (SearchResult \<times> session) option" where
  "search env keyword max_items filters =
     (case search_try env keyword max_items filters of
        None \<Rightarrow> None
      | Some (Inr (r, s)) \<Rightarrow> Some (r, remove_listener s)
      | Some (Inl (e, s)) \<Rightarrow>
          (case e of
             PlaywrightTimeoutError \<Rightarrow>
               Some (SearchResult_items (all_feeds s) False 0, remove_listener s)
           | _ \<Rightarrow> Some (SearchResult_items (all_feeds s) False 0, remove_listener s)))"

subsection \<open>Notions used in the properties\<close>

definition feeds_normalized :: "session \<Rightarrow> bool" where
  "feeds_normalized s = list_all is_normalized (all_feeds s)"

text \<open>The session a stage ends in, whether it raised or not.\<close>

definition final :: "(exc \<times> session) + session \<Rightarrow> session" where
  "final r = (case r of Inl (e, s) \<Rightarrow> s | Inr s \<Rightarrow> s)"


text \<open>A session \<open>t\<close> holds the same accumulated items and seen ids as \<open>s\<close>.\<close>

definition same_feeds :: "session \<Rightarrow> session \<Rightarrow> bool" where
  "same_feeds s t = (all_feeds t = all_feeds s \<and> seen_ids t = seen_ids s)"

text \<open>The ids of the items a call returned, and of the items it had accumulated.\<close>

definition returned_ids :: "(SearchResult \<times> session) option \<Rightarrow> string list option" where
  "returned_ids res = map_option (\<lambda>(r, s). map feed_id (items r)) res"

definition accumulated_ids :: "(SearchResult \<times> session) option \<Rightarrow> string list option" where
  "accumulated_ids res = map_option (\<lambda>(r, s). map feed_id (all_feeds s)) res"

definition returned_result :: "(SearchResult \<times> session) option \<Rightarrow> SearchResult option" where
  "returned_result res = map_option fst res"

text \<open>
  The awaited calls of a session, in the order they were made: the events of the
  environment are numbered by them, so the call number \<open>k\<close> met the event \<open>env k\<close>. The
  registration and the removal of the listener are not awaited. The two calls of the
  first screen (lines 108 to 150) are those of the initial-state extraction.
\<close>

definition is_awaited :: "action \<Rightarrow> bool" where
  "is_awaited a = (a \<noteq> OnResponse \<and> a \<noteq> RemoveListener)"

definition awaited :: "action list \<Rightarrow> action list" where
  "awaited acts = filter is_awaited acts"

definition in_initial_state_pass :: "action \<Rightarrow> bool" where
  "in_initial_state_pass a = (a = WaitForInitialState \<or> a = EvaluateInitialState)"


text \<open>
  A pair of properties of the session that the stages of \<^verbatim>\<open>search\<close> keep: \<open>Q\<close> holds
  as long as no exception has reached a handler of \<^verbatim>\<open>search\<close>, \<open>R\<close> from then on. They
  are kept when every awaited call outside the initial-state extraction takes \<open>Q\<close> to
  \<open>Q\<close>, or to \<open>R\<close> when it raises, and the initial-state extraction, the registration and
  the removal of the listener keep them.
\<close>

definition stage_ok ::
  "(session \<Rightarrow> bool) \<Rightarrow> (session \<Rightarrow> bool) \<Rightarrow> (exc \<times> session) + session \<Rightarrow> bool" where
  "stage_ok Q R m = (case m of Inl (e, s) \<Rightarrow> R s | Inr s \<Rightarrow> Q s)"





text \<open>
  The raw records a producer offers. The listener (lines 49 to 69) loops over
  \<^verbatim>\<open>data["data"]["items"]\<close> of a response of the search API with status 200; the parse
  of the state blob (lines 216 to 235) over \<^verbatim>\<open>search.feeds._value\<close>. When the path to
  the records raises, no record is offered.
\<close>

definition data_records :: "json \<Rightarrow> json list" where
  "data_records data =
     (if \<not> truthy data then [] else
      case bindE (py_in ''data'' data) (\<lambda>has_data. if \<not> has_data then Inr [] else
           bindE (py_item data ''data'') (\<lambda>inner.
           bindE (py_in ''items'' inner) (\<lambda>has_items. if \<not> has_items then Inr [] else
           bindE (py_item inner ''items'') (\<lambda>its.
           bindE (py_len its) (\<lambda>n.
           py_iter its)))))
      of Inr elems \<Rightarrow> elems | Inl e \<Rightarrow> [])"

definition response_records :: "response \<Rightarrow> json list" where
  "response_records resp =
     (if str_contains ''/api/sns/web/v1/search/notes'' (resp_url resp) \<and> resp_status resp = 200
      then (case resp_json resp of None \<Rightarrow> [] | Some data \<Rightarrow> data_records data)
      else [])"

definition state_records :: "json option \<Rightarrow> json list" where
  "state_records loads =
     (case loads of
        None \<Rightarrow> []
      | Some state_data \<Rightarrow>
          (case bindE (py_get state_data ''search'' (JDict [])) (\<lambda>search_data.
                bindE (py_get search_data ''feeds'' (JDict [])) (\<lambda>feeds_data.
                bindE (py_get feeds_data ''_value'' (JList [])) (\<lambda>feeds_value.
                bindE (py_len feeds_value) (\<lambda>n.
                py_iter feeds_value))))
           of Inr elems \<Rightarrow> elems | Inl e \<Rightarrow> []))"

text \<open>The records that the events of an environment carry, in the responses that arrive
  and in the state blob an evaluation returns.\<close>

definition event_records :: "event \<Rightarrow> json list" where
  "event_records ev =
     concat (map response_records (arrivals ev))
       @ (case returns ev of JsFalsy \<Rightarrow> [] | JsText loads \<Rightarrow> state_records loads)"

definition offered_records :: "(nat \<Rightarrow> event) \<Rightarrow> json set" where
  "offered_records env = (\<Union>n. set (event_records (env n)))"

definition is_offered :: "(nat \<Rightarrow> event) \<Rightarrow> Feed \<Rightarrow> bool" where
  "is_offered env f = (\<exists>item \<in> offered_records env. convert_item_to_feed item = Some f)"

definition feeds_offered :: "(nat \<Rightarrow> event) \<Rightarrow> session \<Rightarrow> bool" where
  "feeds_offered env s = list_all (is_offered env) (all_feeds s)"

subsection \<open>A concrete run\<close>

text \<open>
  Raw records with only an id, the state blob and an API response that carry a list of
  records, and an environment for a search without filters: the state blob (event 4)
  holds the records a, b and an empty record; during the first scroll (event 6) a
  response with b, c and a string arrives; the second scroll times out (event 11).
\<close>

definition quiet :: event where
  "quiet = \<lparr>arrivals = [], raises = None, returns = JsFalsy\<rparr>"

definition record_with_id :: "string \<Rightarrow> json" where
  "record_with_id i = JDict [(''id'', JStr i)]"

definition state_blob :: "json list \<Rightarrow> json" where
  "state_blob records = JDict [(''search'', JDict [(''feeds'', JDict [(''_value'', JList records)])])]"

definition api_response :: "json list \<Rightarrow> response" where
  "api_response records =
     \<lparr>resp_url = ''https://edith.xiaohongshu.com/api/sns/web/v1/search/notes'',
      resp_status = 200,
      resp_json = Some (JDict [(''data'', JDict [(''items'', JList records)])])\<rparr>"

definition demo_env :: "nat \<Rightarrow> event" where
  "demo_env n =
     (if n = 4 then quiet\<lparr>returns :=
          JsText (Some (state_blob [record_with_id ''a'', record_with_id ''b'', JDict []]))\<rparr>
      else if n = 6 then quiet\<lparr>arrivals :=
          [api_response [record_with_id ''b'', record_with_id ''c'', JStr ''x'']]\<rparr>
      else if n = 11 then quiet\<lparr>raises := Some PlaywrightTimeoutError\<rparr>
      else quiet)"

definition quiet_env :: "nat \<Rightarrow> event" where
  "quiet_env n = quiet"

definition feed_with_id :: "string \<Rightarrow> string \<Rightarrow> Feed" where
  "feed_with_id i t =
     \<lparr>feed_id = i, model_type = t, note_card = default_NoteCard, track_id = None,
      xsec_token = None\<rparr>"



section \<open>Properties of the filter translator\<close>

lemmas translator_defs =
  convert_to_internal_filters_def mapping_def find_internal_option_def FILTER_OPTIONS_MAP_def
  IFO_def

lemma map_cases:
  assumes "FILTER_OPTIONS_MAP g = Some options"
  shows "g = 1 \<or> g = 2 \<or> g = 3 \<or> g = 4 \<or> g = 5"
  using assms by (auto simp: FILTER_OPTIONS_MAP_def split: if_splits)

lemma table_entry:
  assumes "FILTER_OPTIONS_MAP g = Some options" and "i < length options"
  shows "find (\<lambda>option. opt_text option = opt_text (options ! i)) options = Some (options ! i)
         \<and> filters_index (options ! i) = g \<and> tags_index (options ! i) = int i + 1
         \<and> opt_text (options ! i) \<noteq> []"
  using assms
  by (auto simp: FILTER_OPTIONS_MAP_def IFO_def label_defs less_Suc_eq numeral_eq_Suc
      split: if_splits)

lemma find_internal_option_known:
  assumes "FILTER_OPTIONS_MAP g = Some options" and "i < length options"
  shows "find_internal_option g (opt_text (options ! i)) = Inr (options ! i)"
  using table_entry [OF assms] assms(1) by (simp add: find_internal_option_def)

lemma find_internal_option_unknown:
  assumes "FILTER_OPTIONS_MAP g = Some options" and "label \<notin> opt_text ` set options"
  shows "find_internal_option g label =
         Inl (ValueError (msg_in_group @ str_int g @ msg_text_not_found @ label @ [CHR 0x27]))"
proof -
  have "find (\<lambda>option. opt_text option = label) options = None"
    using assms(2) by (auto simp: find_None_iff)
  then show ?thesis using assms(1) by (simp add: find_internal_option_def)
qed

lemma convert_only_field:
  assumes "g = 1 \<or> g = 2 \<or> g = 3 \<or> g = 4 \<or> g = 5" and "label \<noteq> []"
  shows "convert_to_internal_filters (only_field g label) =
         (case find_internal_option g label of
            Inr internal \<Rightarrow> Inr [internal]
          | Inl e \<Rightarrow> if is_ValueError e then Inl (ValueError (group_name g @ msg_error @ str_exc e))
                     else Inl e)"
  using assms
  by (auto simp: convert_to_internal_filters_def mapping_def only_field_def group_name_def
      split: sum.splits)

lemma validate_table_entry:
  assumes "FILTER_OPTIONS_MAP g = Some options" and "i < length options"
  shows "validate_internal_filter_option (options ! i) = Inr ()"
proof -
  have g: "1 \<le> g \<and> g \<le> 5" using map_cases [OF assms(1)] by auto
  have e: "filters_index (options ! i) = g" "tags_index (options ! i) = int i + 1"
    using table_entry [OF assms] by simp_all
  show ?thesis using g e assms by (simp add: validate_internal_filter_option_def)
qed

text \<open>
  C10. \<^verbatim>\<open>FilterOption()\<close> has each of its five fields set to the first option of its
  group, and its translation is the list of the five first options, one per group in
  ascending group order, each with \<^verbatim>\<open>tags_index\<close> 1: no field of the default selection
  is skipped as unset.
\<close>

theorem default_selection_translates_to_five_first_options:
  "sort_by FilterOption_default = Some zonghe
   \<and> note_type FilterOption_default = Some buxian
   \<and> publish_time FilterOption_default = Some buxian
   \<and> search_scope FilterOption_default = Some buxian
   \<and> location FilterOption_default = Some buxian
   \<and> convert_to_internal_filters FilterOption_default =
       Inr [IFO 1 1 zonghe, IFO 2 1 buxian, IFO 3 1 buxian, IFO 4 1 buxian, IFO 5 1 buxian]"
  by (simp add: translator_defs FilterOption_default_def label_defs)

text \<open>
  C5. For every entry of the static table, at position \<open>i\<close> of group \<open>g\<close>: translating
  the selection in which only the field of group \<open>g\<close> is set, to the entry's text, gives
  exactly that entry; its \<^verbatim>\<open>filters_index\<close> is \<open>g\<close>, its \<^verbatim>\<open>tags_index\<close> is its
  position counted from 1, and it passes the validation. For a label that is set (not
  empty) and is the text of no entry of the group, the translation raises
  \<^verbatim>\<open>ValueError\<close>, with the message naming the group and the label.
\<close>

theorem filter_translation_round_trip:
  assumes "FILTER_OPTIONS_MAP g = Some options"
  shows "(\<forall>i < length options.
            convert_to_internal_filters (only_field g (opt_text (options ! i))) = Inr [options ! i]
            \<and> filters_index (options ! i) = g
            \<and> tags_index (options ! i) = int i + 1
            \<and> validate_internal_filter_option (options ! i) = Inr ())
         \<and> (\<forall>label. label \<noteq> [] \<and> label \<notin> opt_text ` set options \<longrightarrow>
               convert_to_internal_filters (only_field g label) =
               Inl (ValueError (unknown_message (group_name g) g label)))"
proof (intro conjI allI impI)
  fix i assume i: "i < length options"
  note t = table_entry [OF assms i]
  show "convert_to_internal_filters (only_field g (opt_text (options ! i))) = Inr [options ! i]"
    using convert_only_field [OF map_cases [OF assms], of "opt_text (options ! i)"] t
      find_internal_option_known [OF assms i] by simp
  show "filters_index (options ! i) = g" using t by simp
  show "tags_index (options ! i) = int i + 1" using t by simp
  show "validate_internal_filter_option (options ! i) = Inr ()"
    by (rule validate_table_entry [OF assms i])
next
  fix label assume l: "label \<noteq> [] \<and> label \<notin> opt_text ` set options"
  show "convert_to_internal_filters (only_field g label) =
        Inl (ValueError (unknown_message (group_name g) g label))"
    using convert_only_field [OF map_cases [OF assms], of label] l
      find_internal_option_unknown [OF assms, of label]
    by (simp add: unknown_message_def)
qed

theorem filter_translation_round_trip_witness:
  "convert_to_internal_filters (only_field 1 zuixin) = Inr [IFO 1 2 zuixin]
   \<and> validate_internal_filter_option (IFO 1 2 zuixin) = Inr ()
   \<and> convert_to_internal_filters (only_field 1 ''x'') =
       Inl (ValueError (unknown_message name_sort_by 1 ''x''))"
proof -
  let ?opts = "[IFO 1 1 zonghe, IFO 1 2 zuixin, IFO 1 3 zuiduo_dianzan, IFO 1 4 zuiduo_pinglun,
                IFO 1 5 zuiduo_shoucang]"
  have m: "FILTER_OPTIONS_MAP 1 = Some ?opts" by (simp add: FILTER_OPTIONS_MAP_def)
  have x: "''x'' \<noteq> [] \<and> ''x'' \<notin> opt_text ` set ?opts" by (simp add: IFO_def label_defs)
  have i: "(1::nat) < length ?opts" by simp
  from filter_translation_round_trip [OF m] i x show ?thesis
    by (auto simp: group_name_def IFO_def)
qed

text \<open>
  C1. The code at the default selection \<^verbatim>\<open>FilterOption()\<close>, whose five options all
  have \<^verbatim>\<open>tags_index\<close> 1: removing from the list while iterating over it skips the
  element after each removed one, so the options of groups 2 and 4 stay in the list that
  \<^verbatim>\<open>_apply_filters\<close> returns and the orchestrator clicks.
\<close>

theorem default_selection_keeps_index_one_options:
  "apply_filters FilterOption_default = Inr [IFO 2 1 buxian, IFO 4 1 buxian]"
  by (simp add: apply_filters_def bindE_def translator_defs FilterOption_default_def label_defs)

text \<open>With an unknown label in one of its pairs, the loop of the translation ends at the
  first such pair, with the error for it.\<close>

lemma convert_loop_unknown:
  assumes "\<exists>(v, g, n) \<in> set m. unknown_label v g"
    and "\<forall>(v, g, n) \<in> set m. FILTER_OPTIONS_MAP g \<noteq> None"
  shows "\<exists>(v, g, n) \<in> set m. \<exists>label. v = Some label \<and> unknown_label v g
            \<and> convert_loop m acc = Inl (ValueError (unknown_message n g label))"
  using assms
proof (induction m arbitrary: acc)
  case Nil
  then show ?case by simp
next
  case (Cons x m)
  obtain v g n where x: "x = (v, g, n)" by (cases x)
  show ?case
  proof (cases "unknown_label v g")
    case True
    then obtain label options where l: "v = Some label" "label \<noteq> []"
      "FILTER_OPTIONS_MAP g = Some options" "label \<notin> opt_text ` set options"
      by (auto simp: unknown_label_def split: option.splits)
    have "convert_loop (x # m) acc = Inl (ValueError (unknown_message n g label))"
      using l find_internal_option_unknown [OF l(3) l(4)] x
      by (simp add: unknown_message_def)
    then show ?thesis using True l(1) x by auto
  next
    case False
    then have rest: "\<exists>(v, g, n) \<in> set m. unknown_label v g" using Cons.prems x by auto
    have groups: "\<forall>(v, g, n) \<in> set m. FILTER_OPTIONS_MAP g \<noteq> None" using Cons.prems by auto
    obtain options where options: "FILTER_OPTIONS_MAP g = Some options"
      using Cons.prems(2) x by auto
    have step: "\<exists>acc'. convert_loop (x # m) acc = convert_loop m acc'"
    proof (cases v)
      case None
      then show ?thesis using x by auto
    next
      case (Some label)
      show ?thesis
      proof (cases "label = []")
        case True
        then show ?thesis using x Some by auto
      next
        case nonempty: False
        then have "label \<in> opt_text ` set options"
          using False Some options by (simp add: unknown_label_def)
        then have "find (\<lambda>option. opt_text option = label) options \<noteq> None"
          by (auto simp: find_None_iff)
        then obtain internal where "find_internal_option g label = Inr internal"
          using options by (auto simp: find_internal_option_def)
        then show ?thesis using x Some nonempty by auto
      qed
    qed
    then obtain acc' where "convert_loop (x # m) acc = convert_loop m acc'" ..
    then show ?thesis using Cons.IH [OF rest groups, of acc'] by auto
  qed
qed

lemma mapping_groups: "\<forall>(v, g, n) \<in> set (mapping f). FILTER_OPTIONS_MAP g \<noteq> None"
  by (simp add: mapping_def FILTER_OPTIONS_MAP_def)

section \<open>Properties of the item normalizer\<close>

lemma bindE_Inr: "bindE m f = Inr y \<longleftrightarrow> (\<exists>x. m = Inr x \<and> f x = Inr y)"
  by (cases m) (simp_all add: bindE_def)






lemma convert_item_to_feed_None:
  "convert_item_to_feed item = None \<longleftrightarrow> (\<exists>e. convert_item_body item = Inl e)"
  by (simp add: convert_item_to_feed_def split: sum.splits)

lemma build_defaults:
  "build_user (JDict []) = Inr (user default_NoteCard)"
  "build_interact_info (JDict []) = Inr (interact_info default_NoteCard)"
  "build_cover (JDict []) = Inr (cover default_NoteCard)"
  "build_video JNull = Inr None"
  by (simp_all add: build_user_def build_interact_info_def build_cover_def build_video_def
      bindE_def dict_get_def new_User_def new_InteractInfo_def new_Cover_def default_NoteCard_def)

lemma body_without_note_card:
  assumes "map_of kvs ''noteCard'' = None"
  shows "convert_item_body (JDict kvs) =
         new_Feed (dict_get kvs ''id'' (JStr [])) (dict_get kvs ''modelType'' (JStr []))
           default_NoteCard (dict_get kvs ''trackId'' JNull) (dict_get kvs ''xsecToken'' JNull)"
proof -
  have nc: "dict_get kvs ''noteCard'' (JDict []) = JDict []"
    using assms by (simp add: dict_get_def)
  have e: "dict_get [] k d = d" for k d by (simp add: dict_get_def)
  have card: "new_NoteCard (JStr []) (JStr []) (user default_NoteCard)
               (interact_info default_NoteCard) (cover default_NoteCard) None None
              = Inr default_NoteCard"
    by (simp add: new_NoteCard_def bindE_def default_NoteCard_def)
  show ?thesis
    by (simp add: convert_item_body_def nc e build_defaults card bindE_def)
qed

lemma not_object_is_dropped:
  assumes "\<forall>kvs. item \<noteq> JDict kvs"
  shows "convert_item_to_feed item = None"
proof -
  have "py_get item ''noteCard'' (JDict []) = Inl AttributeError"
    using assms by (cases item) auto
  then show ?thesis by (simp add: convert_item_to_feed_def convert_item_body_def bindE_def)
qed

lemma card_not_object_is_dropped:
  assumes "map_of kvs ''noteCard'' = Some v" and "\<forall>c. v \<noteq> JDict c"
  shows "convert_item_to_feed (JDict kvs) = None"
proof -
  have nc: "py_get (JDict kvs) ''noteCard'' (JDict []) = Inr v"
    using assms(1) by (simp add: dict_get_def)
  have "py_get v ''user'' (JDict []) = Inl AttributeError"
    using assms(2) by (cases v) auto
  then show ?thesis using nc by (simp add: convert_item_to_feed_def convert_item_body_def bindE_def)
qed

section \<open>Properties of the dedup accumulator\<close>

lemma offer_all_general:
  "all_feeds (offer_all xs s) = all_feeds s @ first_by_id (filter (\<lambda>x. feed_id x \<notin> seen_ids s) xs)
   \<and> seen_ids (offer_all xs s) = seen_ids s \<union> feed_id ` set xs"
proof (induction xs arbitrary: s)
  case Nil
  then show ?case by simp
next
  case (Cons x xs)
  show ?case
  proof (cases "feed_id x \<in> seen_ids s")
    case True
    then have "offer x s = s" by (simp add: offer_def)
    then show ?thesis using Cons.IH [of s] True by auto
  next
    case False
    let ?s = "offer x s"
    have a: "all_feeds ?s = all_feeds s @ [x]"
      and b: "seen_ids ?s = insert (feed_id x) (seen_ids s)"
      using False by (simp_all add: offer_def)
    have f: "filter (\<lambda>y. feed_id y \<notin> insert (feed_id x) (seen_ids s)) xs
             = filter (\<lambda>y. feed_id y \<noteq> feed_id x) (filter (\<lambda>y. feed_id y \<notin> seen_ids s) xs)"
      by (induction xs) auto
    show ?thesis using Cons.IH [of ?s] a b f False by auto
  qed
qed

lemma ids_first_by_id: "feed_id ` set (first_by_id xs) = feed_id ` set xs"
proof (induction xs rule: first_by_id.induct)
  case 1
  then show ?case by simp
next
  case (2 x xs)
  then show ?case by auto
qed

lemma distinct_first_by_id: "distinct (map feed_id (first_by_id xs))"
proof (induction xs rule: first_by_id.induct)
  case 1
  then show ?case by simp
next
  case (2 x xs)
  have "feed_id x \<notin> feed_id ` set (filter (\<lambda>y. feed_id y \<noteq> feed_id x) xs)" by auto
  then have "feed_id x \<notin> feed_id ` set (first_by_id (filter (\<lambda>y. feed_id y \<noteq> feed_id x) xs))"
    by (simp add: ids_first_by_id)
  then show ?case using 2 by simp
qed

text \<open>Both producers offer through the same code: the listener's loop over the records of
  a response offers the items the normalizer returns for them, in order.\<close>

lemma offer_items_offer_all:
  "offer_items elems s = offer_all (List.map_filter convert_item_to_feed elems) s"
  by (induction elems arbitrary: s) (auto simp: List.map_filter_simps split: option.splits)

text \<open>
  C6. For every sequence \<open>xs\<close> of items offered to a fresh session, in the order the two
  producers offer them: the accumulated sequence is the first item offered for each id, in
  the order of first offer, with no id twice; and offering once more an item whose id is
  among those already offered leaves the session, hence the sequence and its size,
  unchanged.
\<close>

theorem offers_keep_first_of_each_id:
  "all_feeds (offer_all xs new_session) = first_by_id xs
   \<and> distinct (map feed_id (all_feeds (offer_all xs new_session)))
   \<and> (\<forall>f. feed_id f \<in> feed_id ` set xs \<longrightarrow>
          offer f (offer_all xs new_session) = offer_all xs new_session)"
proof -
  have g: "all_feeds (offer_all xs new_session) = first_by_id xs"
    "seen_ids (offer_all xs new_session) = feed_id ` set xs"
    using offer_all_general [of xs new_session] by (simp_all add: new_session_def)
  show ?thesis using g distinct_first_by_id [of xs] by (simp add: offer_def)
qed

theorem offers_keep_first_of_each_id_witness:
  "all_feeds (offer_all [feed_with_id ''a'' ''note'', feed_with_id ''b'' ''note'',
                         feed_with_id ''a'' ''video''] new_session)
     = [feed_with_id ''a'' ''note'', feed_with_id ''b'' ''note'']
   \<and> offer (feed_with_id ''a'' ''video'')
         (offer_all [feed_with_id ''a'' ''note'', feed_with_id ''b'' ''note'',
                     feed_with_id ''a'' ''video''] new_session)
     = offer_all [feed_with_id ''a'' ''note'', feed_with_id ''b'' ''note'',
                  feed_with_id ''a'' ''video''] new_session"
proof -
  let ?xs = "[feed_with_id ''a'' ''note'', feed_with_id ''b'' ''note'', feed_with_id ''a'' ''video'']"
  have i: "feed_id (feed_with_id ''a'' ''video'') \<in> feed_id ` set ?xs" by simp
  have f: "first_by_id ?xs = [feed_with_id ''a'' ''note'', feed_with_id ''b'' ''note'']"
    by (simp add: feed_with_id_def)
  from offers_keep_first_of_each_id [of ?xs] i f show ?thesis by simp
qed

subsection \<open>Records in a batch\<close>

lemma offer_items_append: "offer_items (xs @ ys) t = offer_items ys (offer_items xs t)"
  by (induction xs arbitrary: t) (auto split: option.splits)

lemma offer_items_mid:
  "offer_items (xs @ item # ys) s =
     offer_items ys (case convert_item_to_feed item of
                       None \<Rightarrow> offer_items xs s
                     | Some f \<Rightarrow> offer f (offer_items xs s))"
  by (simp add: offer_items_append split: option.splits)

lemma offer_items_dropped:
  "convert_item_to_feed item = None \<Longrightarrow> offer_items (xs @ item # ys) s = offer_items (xs @ ys) s"
  by (simp add: offer_items_append)

lemma offer_items_grows: "\<exists>rest. all_feeds (offer_items ys t) = all_feeds t @ rest"
  unfolding offer_items_offer_all using offer_all_general [of _ t] by simp

lemma offer_items_appends:
  assumes "convert_item_to_feed x = Some f" and "feed_id f \<notin> seen_ids (offer_items xs s)"
  shows "\<exists>rest. all_feeds (offer_items (xs @ x # ys) s) = all_feeds (offer_items xs s) @ f # rest"
proof -
  obtain rest where "all_feeds (offer_items ys (offer f (offer_items xs s)))
                     = all_feeds (offer f (offer_items xs s)) @ rest"
    using offer_items_grows by blast
  then show ?thesis using assms by (simp add: offer_items_mid offer_def)
qed

lemma offer_items_seen:
  assumes "convert_item_to_feed x = Some f" and "feed_id f \<in> seen_ids (offer_items xs s)"
  shows "offer_items (xs @ x # ys) s = offer_items (xs @ ys) s"
  using assms by (simp add: offer_items_mid offer_items_append offer_def)



lemma demo_records:
  "map_of [(''noteCard'', JNull)] ''noteCard'' = Some JNull
   \<and> map_of [(''id'', JStr ''a'')] ''noteCard'' = None
   \<and> new_Feed (dict_get [(''id'', JStr ''a'')] ''id'' (JStr []))
        (dict_get [(''id'', JStr ''a'')] ''modelType'' (JStr [])) default_NoteCard
        (dict_get [(''id'', JStr ''a'')] ''trackId'' JNull)
        (dict_get [(''id'', JStr ''a'')] ''xsecToken'' JNull) = Inr (feed_with_id ''a'' [])
   \<and> feed_id (feed_with_id ''a'' []) \<notin> seen_ids (offer_items [JNull] new_session)
   \<and> all_feeds (offer_items [JNull] new_session) = []
   \<and> feed_id (feed_with_id ''a'' [])
        \<in> seen_ids (offer_items [JDict [(''id'', JStr ''a''), (''modelType'', JStr ''x'')]] new_session)"
  by code_simp

text \<open>
  C3, as the code has it. A record that is not a JSON object, or whose \<^verbatim>\<open>noteCard\<close> is
  present and not an object, is normalized to \<^verbatim>\<open>None\<close>. A record (an object) without
  the key \<^verbatim>\<open>noteCard\<close> is not: the card is read from an empty object, every field of it
  takes its default, and the result is the item built from the record's \<^verbatim>\<open>id\<close>,
  \<^verbatim>\<open>modelType\<close>, \<^verbatim>\<open>trackId\<close> and \<^verbatim>\<open>xsecToken\<close> with the default card; it is
  \<^verbatim>\<open>None\<close> only when one of these four values has the wrong type. In a batch of
  records, a record normalized to \<^verbatim>\<open>None\<close> is dropped and the records after it are
  offered as if it were not there; a record normalized to an item has that item appended
  to the accumulator, right after the items of the records before it, unless its id has
  been seen by then, in which case the record changes nothing.
\<close>

theorem record_without_note_card_gets_default_card:
  "((\<forall>kvs. item \<noteq> JDict kvs) \<longrightarrow> convert_item_to_feed item = None)
   \<and> (map_of kvs ''noteCard'' = Some v \<and> (\<forall>c. v \<noteq> JDict c) \<longrightarrow>
        convert_item_to_feed (JDict kvs) = None)
   \<and> (map_of kvs' ''noteCard'' = None \<longrightarrow>
        convert_item_to_feed (JDict kvs') =
        (case new_Feed (dict_get kvs' ''id'' (JStr [])) (dict_get kvs' ''modelType'' (JStr []))
                default_NoteCard (dict_get kvs' ''trackId'' JNull) (dict_get kvs' ''xsecToken'' JNull)
         of Inr feed \<Rightarrow> Some feed | Inl e \<Rightarrow> None))
   \<and> (convert_item_to_feed x = None \<longrightarrow>
        offer_items (xs @ x # ys) s = offer_items (xs @ ys) s)
   \<and> (convert_item_to_feed x = Some f \<and> feed_id f \<notin> seen_ids (offer_items xs s) \<longrightarrow>
        (\<exists>rest. all_feeds (offer_items (xs @ x # ys) s)
                 = all_feeds (offer_items xs s) @ f # rest))
   \<and> (convert_item_to_feed x = Some f \<and> feed_id f \<in> seen_ids (offer_items xs s) \<longrightarrow>
        offer_items (xs @ x # ys) s = offer_items (xs @ ys) s)"
proof (intro conjI)
  show "(\<forall>kvs. item \<noteq> JDict kvs) \<longrightarrow> convert_item_to_feed item = None"
    using not_object_is_dropped by blast
  show "map_of kvs ''noteCard'' = Some v \<and> (\<forall>c. v \<noteq> JDict c) \<longrightarrow>
        convert_item_to_feed (JDict kvs) = None"
    using card_not_object_is_dropped by blast
  show "map_of kvs' ''noteCard'' = None \<longrightarrow>
        convert_item_to_feed (JDict kvs') =
        (case new_Feed (dict_get kvs' ''id'' (JStr [])) (dict_get kvs' ''modelType'' (JStr []))
                default_NoteCard (dict_get kvs' ''trackId'' JNull) (dict_get kvs' ''xsecToken'' JNull)
         of Inr feed \<Rightarrow> Some feed | Inl e \<Rightarrow> None)"
    using body_without_note_card [of kvs'] by (simp add: convert_item_to_feed_def)
  show "convert_item_to_feed x = None \<longrightarrow>
        offer_items (xs @ x # ys) s = offer_items (xs @ ys) s"
    by (simp add: offer_items_dropped)
  show "convert_item_to_feed x = Some f \<and> feed_id f \<notin> seen_ids (offer_items xs s) \<longrightarrow>
        (\<exists>rest. all_feeds (offer_items (xs @ x # ys) s)
                 = all_feeds (offer_items xs s) @ f # rest)"
    using offer_items_appends by blast
  show "convert_item_to_feed x = Some f \<and> feed_id f \<in> seen_ids (offer_items xs s) \<longrightarrow>
        offer_items (xs @ x # ys) s = offer_items (xs @ ys) s"
    using offer_items_seen by blast
qed

theorem record_without_note_card_gets_default_card_witness:
  "convert_item_to_feed JNull = None
   \<and> map_of [(''noteCard'', JNull)] ''noteCard'' = Some JNull
   \<and> convert_item_to_feed (JDict [(''noteCard'', JNull)]) = None
   \<and> map_of [(''id'', JStr ''a'')] ''noteCard'' = None
   \<and> convert_item_to_feed (JDict [(''id'', JStr ''a'')]) = Some (feed_with_id ''a'' [])
   \<and> offer_items ([JDict [(''id'', JStr ''a'')]] @ JNull # []) new_session
       = offer_items ([JDict [(''id'', JStr ''a'')]] @ []) new_session
   \<and> feed_id (feed_with_id ''a'' []) \<notin> seen_ids (offer_items [JNull] new_session)
   \<and> (\<exists>rest. all_feeds (offer_items ([JNull] @ JDict [(''id'', JStr ''a'')] # []) new_session)
              = [] @ feed_with_id ''a'' [] # rest)
   \<and> feed_id (feed_with_id ''a'' [])
        \<in> seen_ids (offer_items [JDict [(''id'', JStr ''a''), (''modelType'', JStr ''x'')]] new_session)
   \<and> offer_items ([JDict [(''id'', JStr ''a''), (''modelType'', JStr ''x'')]]
                    @ JDict [(''id'', JStr ''a'')] # []) new_session
       = offer_items ([JDict [(''id'', JStr ''a''), (''modelType'', JStr ''x'')]] @ []) new_session"
proof -
  note d = demo_records
  have o: "\<forall>kvs. JNull \<noteq> JDict kvs" "\<forall>c. JNull \<noteq> JDict c" by simp_all
  note t1 = record_without_note_card_gets_default_card
    [where item = JNull and kvs = "[(''noteCard'', JNull)]" and v = JNull
       and kvs' = "[(''id'', JStr ''a'')]" and x = JNull and xs = "[JDict [(''id'', JStr ''a'')]]"
       and ys = "[]" and s = new_session]
  from t1 o have 1: "convert_item_to_feed JNull = None" by blast
  from t1 o d have 2: "convert_item_to_feed (JDict [(''noteCard'', JNull)]) = None" by blast
  from t1 d have 3: "convert_item_to_feed (JDict [(''id'', JStr ''a'')]) = Some (feed_with_id ''a'' [])"
    by simp
  from t1 1 have 4: "offer_items ([JDict [(''id'', JStr ''a'')]] @ JNull # []) new_session
       = offer_items ([JDict [(''id'', JStr ''a'')]] @ []) new_session" by blast
  from record_without_note_card_gets_default_card
    [where x = "JDict [(''id'', JStr ''a'')]" and f = "feed_with_id ''a'' []" and xs = "[JNull]"
       and ys = "[]" and s = new_session] 3 d
  have 5: "\<exists>rest. all_feeds (offer_items ([JNull] @ JDict [(''id'', JStr ''a'')] # []) new_session)
              = [] @ feed_with_id ''a'' [] # rest" by metis
  from record_without_note_card_gets_default_card
    [where x = "JDict [(''id'', JStr ''a'')]" and f = "feed_with_id ''a'' []"
       and xs = "[JDict [(''id'', JStr ''a''), (''modelType'', JStr ''x'')]]"
       and ys = "[]" and s = new_session] 3 d
  have 6: "offer_items ([JDict [(''id'', JStr ''a''), (''modelType'', JStr ''x'')]]
                    @ JDict [(''id'', JStr ''a'')] # []) new_session
       = offer_items ([JDict [(''id'', JStr ''a''), (''modelType'', JStr ''x'')]] @ []) new_session"
    by blast
  show ?thesis using 1 2 3 4 5 6 d by blast
qed

text \<open>The record \<^verbatim>\<open>{"id": "a"}\<close> has no \<^verbatim>\<open>noteCard\<close>; it is normalized to an item,
  and the listener's loop appends that item to the accumulator.\<close>

theorem record_without_note_card_is_accumulated:
  "dict_get [(''id'', JStr ''a'')] ''noteCard'' JNull = JNull
   \<and> convert_item_to_feed (JDict [(''id'', JStr ''a'')]) = Some (feed_with_id ''a'' '''')
   \<and> all_feeds (offer_items [JDict [(''id'', JStr ''a'')]] new_session) = [feed_with_id ''a'' '''']"
  by code_simp

section \<open>Properties of the harvest orchestrator\<close>

subsection \<open>Every accumulated item is normalized\<close>

lemma final_simps [simp]: "final (Inl (e, s)) = s" "final (Inr s) = s"
  by (simp_all add: final_def)

lemma normalized_offer:
  "is_normalized f \<Longrightarrow> feeds_normalized s \<Longrightarrow> feeds_normalized (offer f s)"
  by (simp add: offer_def feeds_normalized_def)

lemma normalized_offer_all:
  "list_all is_normalized fs \<Longrightarrow> feeds_normalized s \<Longrightarrow> feeds_normalized (offer_all fs s)"
  by (induction fs arbitrary: s) (simp_all add: normalized_offer)

lemma normalized_map_filter: "list_all is_normalized (List.map_filter convert_item_to_feed elems)"
  by (induction elems) (auto simp: List.map_filter_simps is_normalized_def split: option.splits)

lemma normalized_offer_items: "feeds_normalized s \<Longrightarrow> feeds_normalized (offer_items elems s)"
  by (simp add: offer_items_offer_all normalized_offer_all normalized_map_filter)

lemma normalized_handle_data:
  "handle_data data s = Inr s' \<Longrightarrow> feeds_normalized s \<Longrightarrow> feeds_normalized s'"
  by (auto simp: handle_data_def bindE_Inr normalized_offer_items split: if_splits)

lemma normalized_handle_response:
  "feeds_normalized s \<Longrightarrow> feeds_normalized (handle_response resp s)"
  by (auto simp: handle_response_def normalized_handle_data split: option.splits sum.splits)

lemma normalized_deliver: "feeds_normalized s \<Longrightarrow> feeds_normalized (deliver rs s)"
  by (induction rs arbitrary: s) (simp_all add: normalized_handle_response)

lemma feeds_normalized_page [simp]:
  "feeds_normalized (s\<lparr>clock := c, actions := a\<rparr>) = feeds_normalized s"
  "feeds_normalized (s\<lparr>listening := l, actions := a\<rparr>) = feeds_normalized s"
  by (simp_all add: feeds_normalized_def)

lemma normalized_await:
  assumes "feeds_normalized s"
  shows "await env a s = Inl (e, s') \<Longrightarrow> feeds_normalized s'"
    and "await env a s = Inr (v, s') \<Longrightarrow> feeds_normalized s'"
  using assms by (auto simp: await_def Let_def normalized_deliver split: option.splits if_splits)

lemma normalized_await_unit:
  "feeds_normalized s \<Longrightarrow> feeds_normalized (final (await_unit env a s))"
  by (auto simp: await_unit_def final_def dest: normalized_await split: sum.splits prod.splits)

lemma normalized_then_do:
  assumes "feeds_normalized (final m)"
    and "\<And>s. feeds_normalized s \<Longrightarrow> feeds_normalized (final (f s))"
  shows "feeds_normalized (final (then_do m f))"
  using assms by (cases m) (auto simp: then_do_def final_def)

lemma normalized_scroll_once:
  "feeds_normalized s \<Longrightarrow> feeds_normalized (final (scroll_once env keyword s))"
  unfolding scroll_once_def
  by (intro normalized_then_do normalized_await_unit)

lemma normalized_navigate:
  "feeds_normalized s \<Longrightarrow> feeds_normalized (final (navigate env keyword s))"
  unfolding navigate_def
  by (intro normalized_then_do normalized_await_unit)

lemma normalized_click_filters:
  "feeds_normalized s \<Longrightarrow> feeds_normalized (final (click_filters env fs s))"
proof (induction fs arbitrary: s)
  case Nil
  then show ?case by (simp add: final_def)
next
  case (Cons a fs)
  show ?case unfolding click_filters.simps
    by (intro normalized_then_do normalized_await_unit Cons.prems Cons.IH)
qed

text \<open>A property that every round of the scroll loop keeps holds when the loop ends.\<close>

lemma scroll_loop_invariant:
  assumes "scroll_loop env keyword max_items s = Some r"
  shows "(\<forall>t. I t \<longrightarrow> I (final (scroll_once env keyword t))) \<longrightarrow> I s \<longrightarrow> I (final r)"
proof (rule scroll_loop.raw_induct
    [where P = "\<lambda>env keyword max_items s r.
       (\<forall>t. I t \<longrightarrow> I (final (scroll_once env keyword t))) \<longrightarrow> I s \<longrightarrow> I (final r)",
     OF _ assms], goal_cases)
  case (1 loop env keyword max_items s r)
  show ?case
  proof (intro impI)
    assume step: "\<forall>t. I t \<longrightarrow> I (final (scroll_once env keyword t))" and s: "I s"
    show "I (final r)"
    proof (cases "int (length (all_feeds s)) < max_items")
      case False
      then show ?thesis using 1(2) s by (auto simp: final_def)
    next
      case True
      have n: "I (final (scroll_once env keyword s))" using step s by blast
      show ?thesis
      proof (cases "scroll_once env keyword s")
        case (Inl es)
        then show ?thesis using 1(2) True n by auto
      next
        case (Inr s')
        then have "loop env keyword max_items s' = Some r" using 1(2) True by simp
        then show ?thesis using 1(1) n Inr step by (simp add: final_def)
      qed
    qed
  qed
qed

lemma normalized_scroll_loop:
  assumes "scroll_loop env keyword max_items s = Some r" and "feeds_normalized s"
  shows "feeds_normalized (final r)"
  using scroll_loop_invariant [OF assms(1), of feeds_normalized] assms(2) normalized_scroll_once
  by blast

text \<open>The loop ends without an exception only with the target count reached.\<close>

lemma scroll_loop_exit:
  assumes "scroll_loop env keyword max_items s = Some r"
  shows "\<forall>s'. r = Inr s' \<longrightarrow> max_items \<le> int (length (all_feeds s'))"
proof (rule scroll_loop.raw_induct
    [where P = "\<lambda>env keyword max_items s r.
       \<forall>s'. r = Inr s' \<longrightarrow> max_items \<le> int (length (all_feeds s'))",
     OF _ assms], goal_cases)
  case (1 loop env keyword max_items s r)
  show ?case
  proof (cases "int (length (all_feeds s)) < max_items")
    case False
    then show ?thesis using 1(2) by auto
  next
    case True
    show ?thesis
    proof (cases "scroll_once env keyword s")
      case (Inl es)
      then show ?thesis using 1(2) True by auto
    next
      case (Inr s')
      then have "loop env keyword max_items s' = Some r" using 1(2) True by simp
      then show ?thesis using 1(1) by blast
    qed
  qed
qed

lemma normalized_parse: "list_all is_normalized (items (parse_search_results_from_state loads))"
  by (auto simp: parse_search_results_from_state_def parse_state_data_def bindE_Inr
      SearchResult_items_def Let_def normalized_map_filter split: option.splits sum.splits)

lemma normalized_initial_state_pass:
  assumes "feeds_normalized s"
  shows "feeds_normalized (initial_state_pass env s)"
proof (cases "await env WaitForInitialState s")
  case (Inl es)
  then show ?thesis using normalized_await(1) [OF assms, of env WaitForInitialState]
    by (cases es) (auto simp: initial_state_pass_def)
next
  case (Inr vs)
  obtain v s1 where vs: "vs = (v, s1)" by (cases vs)
  have s1: "feeds_normalized s1" using normalized_await(2) [OF assms] Inr vs by blast
  show ?thesis
  proof (cases "await env EvaluateInitialState s1")
    case (Inl es)
    then show ?thesis using normalized_await(1) [OF s1, of env EvaluateInitialState] Inr vs
      by (cases es) (auto simp: initial_state_pass_def)
  next
    case r: (Inr ws)
    obtain w s2 where ws: "ws = (w, s2)" by (cases ws)
    have s2: "feeds_normalized s2" using normalized_await(2) [OF s1] r ws by blast
    show ?thesis using Inr vs r ws s2
      by (cases w) (simp_all add: initial_state_pass_def normalized_offer_all normalized_parse)
  qed
qed

subsection \<open>The ways search ends\<close>

lemma filter_block_cases:
  assumes "feeds_normalized s"
  shows "(\<exists>e s'. filter_block env f s = Raised e s' \<and> feeds_normalized s')
       \<or> (\<exists>m s'. filter_block env f s = Returned (SearchResult_failure False m []) s'
              \<and> feeds_normalized s')
       \<or> (\<exists>s'. filter_block env f s = Continue s' \<and> feeds_normalized s')"
proof (cases "apply_filters f")
  case (Inl e)
  then show ?thesis using assms by (auto simp: filter_block_def)
next
  case (Inr fs)
  let ?r = "then_do (await_unit env HoverFilter s) (\<lambda>s.
            then_do (await_unit env WaitForFilterPanel s) (\<lambda>s. click_filters env fs s))"
  have n: "feeds_normalized (final ?r)"
    by (intro normalized_then_do normalized_await_unit normalized_click_filters assms)
  show ?thesis
  proof (cases ?r)
    case (Inl es)
    then show ?thesis using Inr n by (cases es) (auto simp: filter_block_def)
  next
    case r: (Inr s')
    then show ?thesis using Inr n by (auto simp: filter_block_def)
  qed
qed



lemma new_session_normalized: "feeds_normalized new_session"
  by (simp add: new_session_def feeds_normalized_def)

lemma search_try_cases:
  assumes "search_try env keyword max_items filters = Some x"
  shows "(\<exists>e s. x = Inl (e, s) \<and> feeds_normalized s)
       \<or> (\<exists>m s. x = Inr (SearchResult_failure False m [], s) \<and> feeds_normalized s)
       \<or> (\<exists>s. x = Inr (finalize max_items (all_feeds s), s) \<and> feeds_normalized s
              \<and> max_items \<le> int (length (all_feeds s)))"
proof (cases "navigate env keyword new_session")
  case (Inl es)
  then show ?thesis
    using assms normalized_navigate [OF new_session_normalized, of env keyword]
    by (cases es) (auto simp: search_try_def)
next
  case (Inr s1)
  then have s1: "feeds_normalized s1"
    using normalized_navigate [OF new_session_normalized, of env keyword] by simp
  define fb where "fb = (case filters of None \<Rightarrow> Continue s1 | Some f \<Rightarrow> filter_block env f s1)"
  have fbc: "(\<exists>e s'. fb = Raised e s' \<and> feeds_normalized s')
       \<or> (\<exists>m s'. fb = Returned (SearchResult_failure False m []) s' \<and> feeds_normalized s')
       \<or> (\<exists>s'. fb = Continue s' \<and> feeds_normalized s')"
    unfolding fb_def using filter_block_cases [OF s1] s1 by (cases filters) auto
  have st: "search_try env keyword max_items filters =
        (case fb of
             Raised e s \<Rightarrow> Some (Inl (e, s))
           | Returned r s \<Rightarrow> Some (Inr (r, s))
           | Continue s2 \<Rightarrow>
               (case await_unit env WaitForLoadState
                       (s2\<lparr>listening := True, actions := actions s2 @ [OnResponse]\<rparr>) of
                  Inl es \<Rightarrow> Some (Inl es)
                | Inr s3 \<Rightarrow>
                    (case scroll_loop env keyword max_items (initial_state_pass env s3) of
                       None \<Rightarrow> None
                     | Some (Inl es) \<Rightarrow> Some (Inl es)
                     | Some (Inr s4) \<Rightarrow> Some (Inr (finalize max_items (all_feeds s4), s4)))))"
    using Inr by (simp add: search_try_def fb_def)
  from fbc show ?thesis
  proof (elim disjE exE conjE)
    fix e s' assume "fb = Raised e s'" "feeds_normalized s'"
    then show ?thesis using st assms by auto
  next
    fix m s' assume "fb = Returned (SearchResult_failure False m []) s'" "feeds_normalized s'"
    then show ?thesis using st assms by auto
  next
    fix s2 assume c: "fb = Continue s2" and s2: "feeds_normalized s2"
    let ?s2 = "s2\<lparr>listening := True, actions := actions s2 @ [OnResponse]\<rparr>"
    have n2: "feeds_normalized ?s2" using s2 by simp
    have n3: "feeds_normalized (final (await_unit env WaitForLoadState ?s2))"
      by (rule normalized_await_unit [OF n2])
    show ?thesis
    proof (cases "await_unit env WaitForLoadState ?s2")
      case (Inl es)
      then show ?thesis using st c assms n3 by (cases es) auto
    next
      case w: (Inr s3)
      then have s3: "feeds_normalized s3" using n3 by simp
      have s3': "feeds_normalized (initial_state_pass env s3)"
        by (rule normalized_initial_state_pass [OF s3])
      show ?thesis
      proof (cases "scroll_loop env keyword max_items (initial_state_pass env s3)")
        case None
        then show ?thesis using st c w assms by simp
      next
        case (Some r)
        note nr = normalized_scroll_loop [OF Some s3']
        show ?thesis
        proof (cases r)
          case (Inl es)
          then show ?thesis using st c w assms Some nr by (cases es) auto
        next
          case l: (Inr s4)
          have "max_items \<le> int (length (all_feeds s4))"
            using scroll_loop_exit [OF Some] l by blast
          then show ?thesis using st c w assms Some nr l by auto
        qed
      qed
    qed
  qed
qed

lemma remove_listener_feeds [simp]: "all_feeds (remove_listener s) = all_feeds s"
  by (simp add: remove_listener_def)

lemma search_cases:
  assumes "search env keyword max_items filters = Some (r, s)"
  shows "(\<exists>e t. search_try env keyword max_items filters = Some (Inl (e, t))
            \<and> r = SearchResult_items (all_feeds t) False 0 \<and> s = remove_listener t)
       \<or> (\<exists>t. search_try env keyword max_items filters = Some (Inr (r, t)) \<and> s = remove_listener t)"
  using assms
  by (auto simp: search_def split: option.splits sum.splits prod.splits exc.splits)


lemma demo_run_4:
  "returned_result (search demo_env ''k w'' 4 None) =
     Some (SearchResult_items
       [feed_with_id ''a'' [], feed_with_id ''b'' [], feed_with_id [] [], feed_with_id ''c'' []]
       True 4)"
  by code_simp

subsection \<open>Properties kept by every stage\<close>

lemma stage_ok_simps [simp]:
  "stage_ok Q R (Inl (e, s)) = R s" "stage_ok Q R (Inr s) = Q s"
  by (simp_all add: stage_ok_def)



lemma awaited_simps [simp]:
  "is_awaited (Goto u)" "is_awaited WaitForLoadState" "is_awaited HoverFilter"
  "is_awaited WaitForFilterPanel" "is_awaited (Click c)" "is_awaited (RandomDelay d)"
  "is_awaited ScrollToBottom" "is_awaited WaitForPageStable"
  "is_awaited WaitForInitialState" "is_awaited EvaluateInitialState"
  "\<not> is_awaited OnResponse" "\<not> is_awaited RemoveListener"
  "\<not> in_initial_state_pass (Goto u)" "\<not> in_initial_state_pass WaitForLoadState"
  "\<not> in_initial_state_pass HoverFilter" "\<not> in_initial_state_pass WaitForFilterPanel"
  "\<not> in_initial_state_pass (Click c)" "\<not> in_initial_state_pass (RandomDelay d)"
  "\<not> in_initial_state_pass ScrollToBottom" "\<not> in_initial_state_pass WaitForPageStable"
  "in_initial_state_pass WaitForInitialState" "in_initial_state_pass EvaluateInitialState"
  by (simp_all add: is_awaited_def in_initial_state_pass_def)









subsection \<open>The records offered\<close>








lemma feeds_offered_page [simp]:
  "feeds_offered env (s\<lparr>clock := c, actions := a\<rparr>) = feeds_offered env s"
  "feeds_offered env (s\<lparr>listening := l, actions := a\<rparr>) = feeds_offered env s"
  by (simp_all add: feeds_offered_def)











subsection \<open>Truncation\<close>

lemma finalize_nonneg:
  assumes "0 \<le> m"
  shows "items (finalize m xs) = take (nat m) xs"
    and "total (finalize m xs) = int (length (take (nat m) xs))"
    and "has_more (finalize m xs)"
  using assms by (auto simp: finalize_def SearchResult_items_def Let_def py_slice_to_def)

text \<open>
  C7, as the code has it. For a target \<^verbatim>\<open>max_items\<close> that is not negative: when
  \<^verbatim>\<open>search\<close> leaves by its successful exit (the only one that sets \<^verbatim>\<open>has_more\<close>), the
  returned items are the first \<open>min (length, max_items)\<close> accumulated items in their order,
  the returned total is their number, and nothing is cut when the count is within the
  bound.
\<close>

theorem successful_search_returns_prefix:
  assumes "search env keyword max_items filters = Some (r, s)" and "has_more r"
    and "0 \<le> max_items"
  shows "items r = take (nat (min (int (length (all_feeds s))) max_items)) (all_feeds s)
         \<and> total r = int (length (items r))
         \<and> (int (length (all_feeds s)) \<le> max_items \<longrightarrow> items r = all_feeds s)"
proof -
  from search_cases [OF assms(1)] assms(2)
  obtain t where t: "search_try env keyword max_items filters = Some (Inr (r, t))"
    and s: "s = remove_listener t"
    by (auto simp: SearchResult_items_def)
  from search_try_cases [OF t] assms(2)
  have r: "r = finalize max_items (all_feeds t)" and c: "max_items \<le> int (length (all_feeds t))"
    by (auto simp: SearchResult_failure_def)
  have m: "min (int (length (all_feeds s))) max_items = max_items" using c s by simp
  show ?thesis using r s m finalize_nonneg [OF assms(3), of "all_feeds t"] c by auto
qed

theorem successful_search_returns_prefix_witness:
  "\<exists>r s. search demo_env ''k w'' 4 None = Some (r, s) \<and> has_more r
      \<and> map feed_id (items r) = [''a'', ''b'', '''', ''c'']
      \<and> items r = take (nat (min (int (length (all_feeds s))) 4)) (all_feeds s)
      \<and> total r = int (length (items r))"
proof -
  let ?r = "SearchResult_items
       [feed_with_id ''a'' [], feed_with_id ''b'' [], feed_with_id [] [], feed_with_id ''c'' []]
       True 4"
  from demo_run_4 obtain s where s: "search demo_env ''k w'' 4 None = Some (?r, s)"
    by (auto simp: returned_result_def)
  have h: "has_more ?r" by (simp add: SearchResult_items_def)
  have i: "map feed_id (items ?r) = [''a'', ''b'', '''', ''c'']"
    by (simp add: SearchResult_items_def feed_with_id_def)
  have p: "(0::int) \<le> 4" by simp
  note t = successful_search_returns_prefix [OF s h p]
  show ?thesis
    by (intro exI [of _ ?r] exI [of _ s] conjI s h i conjunct1 [OF t] conjunct1 [OF conjunct2 [OF t]])
qed

text \<open>The run of \<open>demo_env\<close> with target \<open>-1\<close>: three items are accumulated from the
  state blob, the loop does not run, and the slice \<^verbatim>\<open>all_feeds[:-1]\<close> returns the first
  two of them, where \<open>min (3, -1)\<close> items would be none.\<close>

theorem negative_target_cuts_from_the_end:
  "returned_ids (search demo_env ''k w'' (- 1) None) = Some [''a'', ''b'']
   \<and> accumulated_ids (search demo_env ''k w'' (- 1) None) = Some [''a'', ''b'', '''']
   \<and> take (nat (min 3 (- 1))) [''a'', ''b'', ''''] = []"
  by code_simp

subsection \<open>Failures\<close>











subsection \<open>The scroll loop\<close>

lemma scroll_loop_diverges:
  assumes "I s"
    and step: "\<And>t. I t \<Longrightarrow> int (length (all_feeds t)) < max_items
                        \<and> (\<exists>t'. scroll_once env keyword t = Inr t' \<and> I t')"
  shows "scroll_loop env keyword max_items s = None"
proof (rule ccontr)
  assume "scroll_loop env keyword max_items s \<noteq> None"
  then obtain r where r: "scroll_loop env keyword max_items s = Some r" by auto
  have "env = env \<and> keyword = keyword \<and> max_items = max_items \<and> I s \<longrightarrow> False"
  proof (rule scroll_loop.raw_induct
      [where P = "\<lambda>e k m t r. e = env \<and> k = keyword \<and> m = max_items \<and> I t \<longrightarrow> False",
       OF _ r], goal_cases)
    case (1 loop e k m t r)
    show ?case
    proof (intro impI, elim conjE)
      assume eq: "e = env" "k = keyword" "m = max_items" and t: "I t"
      from step [OF t] obtain t' where c: "int (length (all_feeds t)) < max_items"
        and o: "scroll_once env keyword t = Inr t'" and t': "I t'" by blast
      have "loop env keyword max_items t' = Some r" using 1(2) eq c o by simp
      from 1(1) [OF this] t' show False by simp
    qed
  qed
  then show False using assms(1) by simp
qed

lemma await_unit_quiet:
  assumes "raises (env (clock t)) = None"
    and "listening t \<longrightarrow> deliver (arrivals (env (clock t))) t = t"
  shows "await_unit env a t = Inr (t\<lparr>clock := clock t + 1, actions := actions t @ [a]\<rparr>)"
  using assms by (auto simp: await_unit_def await_def Let_def)

lemma same_feeds_page [simp]:
  "same_feeds s (t\<lparr>clock := c, actions := a\<rparr>) = same_feeds s t"
  by (simp add: same_feeds_def)

text \<open>
  C9. The scroll loop ends without an exception only in a session whose count has
  reached \<^verbatim>\<open>max_items\<close>: it has no other exit. And when the count is below
  \<^verbatim>\<open>max_items\<close>, no awaited call from now on raises, and the responses that arrive from
  now on bring no new item (delivering them changes no session that holds the present
  items and ids), the loop does not end: its result is \<open>None\<close>.
\<close>

theorem scroll_loop_ends_only_at_target:
  "(scroll_loop env keyword max_items s = Some (Inr s') \<longrightarrow>
      max_items \<le> int (length (all_feeds s')))
   \<and> (int (length (all_feeds s)) < max_items
      \<and> (\<forall>n \<ge> clock s. raises (env n) = None)
      \<and> (\<forall>n \<ge> clock s. \<forall>t. same_feeds s t \<longrightarrow> deliver (arrivals (env n)) t = t)
      \<longrightarrow> scroll_loop env keyword max_items s = None)"
proof (intro conjI impI)
  assume "scroll_loop env keyword max_items s = Some (Inr s')"
  from scroll_loop_exit [OF this] show "max_items \<le> int (length (all_feeds s'))" by simp
next
  assume h: "int (length (all_feeds s)) < max_items
      \<and> (\<forall>n \<ge> clock s. raises (env n) = None)
      \<and> (\<forall>n \<ge> clock s. \<forall>t. same_feeds s t \<longrightarrow> deliver (arrivals (env n)) t = t)"
  define I where "I t = (same_feeds s t \<and> clock s \<le> clock t)" for t
  have q: "await_unit env a t = Inr (t\<lparr>clock := clock t + 1, actions := actions t @ [a]\<rparr>)"
    if "I t" for a t
    using that h by (intro await_unit_quiet) (auto simp: I_def)
  have I_step: "I (t\<lparr>clock := clock t + 1, actions := a\<rparr>)" if "I t" for t a
    using that by (simp add: I_def)
  have "I s" by (simp add: I_def same_feeds_def)
  moreover have "int (length (all_feeds t)) < max_items
        \<and> (\<exists>t'. scroll_once env keyword t = Inr t' \<and> I t')" if t: "I t" for t
  proof -
    let ?t1 = "t\<lparr>clock := clock t + 1, actions := actions t @ [ScrollToBottom]\<rparr>"
    let ?t2 = "?t1\<lparr>clock := clock ?t1 + 1,
                 actions := actions ?t1 @ [RandomDelay (SeedStr keyword)]\<rparr>"
    let ?t3 = "?t2\<lparr>clock := clock ?t2 + 1, actions := actions ?t2 @ [WaitForLoadState]\<rparr>"
    let ?t4 = "?t3\<lparr>clock := clock ?t3 + 1, actions := actions ?t3 @ [WaitForPageStable]\<rparr>"
    have i1: "I ?t1" by (rule I_step [OF t])
    have i2: "I ?t2" by (rule I_step [OF i1])
    have i3: "I ?t3" by (rule I_step [OF i2])
    have i4: "I ?t4" by (rule I_step [OF i3])
    have "scroll_once env keyword t = Inr ?t4"
      unfolding scroll_once_def
      by (simp only: q [OF t] q [OF i1] q [OF i2] q [OF i3] then_do_def sum.case)
    moreover have "int (length (all_feeds t)) < max_items"
      using t h by (simp add: I_def same_feeds_def)
    ultimately show ?thesis using i4 by blast
  qed
  ultimately show "scroll_loop env keyword max_items s = None"
    by (rule scroll_loop_diverges)
qed

theorem scroll_loop_ends_only_at_target_witness:
  "scroll_loop quiet_env ''k'' 0 new_session = Some (Inr new_session)
   \<and> (0::int) \<le> int (length (all_feeds new_session))
   \<and> scroll_loop quiet_env ''k'' 1 new_session = None"
proof -
  have z: "scroll_loop quiet_env ''k'' 0 new_session = Some (Inr new_session)"
    by (simp add: scroll_loop.simps new_session_def)
  have h: "int (length (all_feeds new_session)) < 1
      \<and> (\<forall>n \<ge> clock new_session. raises (quiet_env n) = None)
      \<and> (\<forall>n \<ge> clock new_session. \<forall>t. same_feeds new_session t \<longrightarrow>
            deliver (arrivals (quiet_env n)) t = t)"
    by (simp add: new_session_def quiet_env_def quiet_def)
  from scroll_loop_ends_only_at_target [of quiet_env "''k''" 0 new_session new_session] z
  have a: "(0::int) \<le> int (length (all_feeds new_session))" by blast
  from scroll_loop_ends_only_at_target [of quiet_env "''k''" 1 new_session new_session] h
  have b: "scroll_loop quiet_env ''k'' 1 new_session = None" by blast
  show ?thesis using z a b by blast
qed

subsection \<open>Failures of awaited calls\<close>


lemma awaited_snoc [simp]:
  "awaited (acts @ [a]) = (if is_awaited a then awaited acts @ [a] else awaited acts)"
  by (simp add: awaited_def)



lemma offer_page [simp]: "clock (offer f s) = clock s" "actions (offer f s) = actions s"
  by (simp_all add: offer_def)

lemma offer_all_page [simp]: "clock (offer_all fs s) = clock s" "actions (offer_all fs s) = actions s"
  by (induction fs arbitrary: s) simp_all
















subsection \<open>A rejected filter selection\<close>

lemma navigate_ok:
  assumes "raises (env 0) = None \<and> raises (env 1) = None"
  shows "navigate env keyword new_session =
         Inr (new_session\<lparr>clock := 2,
                actions := [Goto (make_search_url keyword), WaitForLoadState]\<rparr>)"
  using assms
  by (simp add: navigate_def then_do_def await_unit_def await_def new_session_def Let_def)

lemma search_rejected_filters:
  assumes "apply_filters f = Inl (ValueError msg)"
    and "raises (env 0) = None \<and> raises (env 1) = None"
  shows "search env keyword max_items (Some f) =
         Some (SearchResult_failure False msg [],
               new_session\<lparr>clock := 2,
                 actions := [Goto (make_search_url keyword), WaitForLoadState, RemoveListener]\<rparr>)"
  using assms(1) navigate_ok [OF assms(2), of keyword]
  by (simp add: search_def search_try_def filter_block_def remove_listener_def new_session_def)

text \<open>
  C4. For every selection in which a field is set (not \<^verbatim>\<open>None\<close>, not empty) to a label
  that its group's table does not have: the translation raises a \<^verbatim>\<open>ValueError\<close> whose
  message names the group (by name and index) and the label of such a field, so no list of
  options is produced, and \<^verbatim>\<open>_apply_filters\<close> raises the same error. A search with this
  selection whose navigation succeeds returns a result without items, with \<^verbatim>\<open>has_more\<close>
  false, \<^verbatim>\<open>success\<close> false and the message of the error; the only calls made on the page
  are the navigation and the removal of the listener: the filter panel is never touched.
\<close>

theorem unknown_label_aborts_search:
  assumes "unknown_label (sort_by f) 1 \<or> unknown_label (note_type f) 2
           \<or> unknown_label (publish_time f) 3 \<or> unknown_label (search_scope f) 4
           \<or> unknown_label (location f) 5"
  shows "\<exists>(v, g, name) \<in> set (mapping f). \<exists>label.
           v = Some label \<and> unknown_label v g
           \<and> convert_to_internal_filters f = Inl (ValueError (unknown_message name g label))
           \<and> apply_filters f = Inl (ValueError (unknown_message name g label))
           \<and> (\<forall>env keyword max_items. raises (env 0) = None \<and> raises (env 1) = None \<longrightarrow>
                (\<exists>r s. search env keyword max_items (Some f) = Some (r, s)
                   \<and> items r = [] \<and> has_more r = False \<and> success r = Some False
                   \<and> message r = Some (unknown_message name g label)
                   \<and> actions s = [Goto (make_search_url keyword), WaitForLoadState,
                                  RemoveListener]))"
proof -
  have "\<exists>(v, g, n) \<in> set (mapping f). unknown_label v g"
    using assms by (auto simp: mapping_def)
  from convert_loop_unknown [OF this mapping_groups, of "[]"]
  obtain v g name label where m: "(v, g, name) \<in> set (mapping f)" and v: "v = Some label"
    and u: "unknown_label v g"
    and c: "convert_to_internal_filters f = Inl (ValueError (unknown_message name g label))"
    by (auto simp: convert_to_internal_filters_def)
  have a: "apply_filters f = Inl (ValueError (unknown_message name g label))"
    using c by (simp add: apply_filters_def bindE_def)
  have "\<exists>r s. search env keyword max_items (Some f) = Some (r, s)
                   \<and> items r = [] \<and> has_more r = False \<and> success r = Some False
                   \<and> message r = Some (unknown_message name g label)
                   \<and> actions s = [Goto (make_search_url keyword), WaitForLoadState, RemoveListener]"
    if "raises (env 0) = None \<and> raises (env 1) = None" for env keyword max_items
    using search_rejected_filters [OF a that, of keyword max_items]
    by (simp add: SearchResult_failure_def)
  then show ?thesis using m v u c a by blast
qed

theorem unknown_label_aborts_search_witness:
  "unknown_label (note_type (only_field 2 ''zz'')) 2
   \<and> convert_to_internal_filters (only_field 2 ''zz'') =
       Inl (ValueError (unknown_message name_note_type 2 ''zz''))
   \<and> (\<exists>r s. search demo_env ''k w'' 4 (Some (only_field 2 ''zz'')) = Some (r, s)
          \<and> items r = [] \<and> has_more r = False \<and> success r = Some False
          \<and> message r = Some (unknown_message name_note_type 2 ''zz'')
          \<and> actions s = [Goto (make_search_url ''k w''), WaitForLoadState, RemoveListener])"
proof -
  have u: "unknown_label (note_type (only_field 2 ''zz'')) 2"
    by (simp add: unknown_label_def only_field_def FILTER_OPTIONS_MAP_def IFO_def label_defs)
  have e: "raises (demo_env 0) = None \<and> raises (demo_env 1) = None"
    by (simp add: demo_env_def quiet_def)
  have only: "(v, g, name) \<in> set (mapping (only_field 2 ''zz'')) \<Longrightarrow> unknown_label v g \<Longrightarrow>
              v = Some ''zz'' \<and> g = 2 \<and> name = name_note_type" for v g name
    by (auto simp: mapping_def only_field_def unknown_label_def)
  from unknown_label_aborts_search [of "only_field 2 ''zz''"] u
  obtain v g name label where m: "(v, g, name) \<in> set (mapping (only_field 2 ''zz''))"
    and v: "v = Some label" and ul: "unknown_label v g"
    and c: "convert_to_internal_filters (only_field 2 ''zz'')
            = Inl (ValueError (unknown_message name g label))"
    and s: "\<forall>env keyword max_items. raises (env 0) = None \<and> raises (env 1) = None \<longrightarrow>
                (\<exists>r s. search env keyword max_items (Some (only_field 2 ''zz'')) = Some (r, s)
                   \<and> items r = [] \<and> has_more r = False \<and> success r = Some False
                   \<and> message r = Some (unknown_message name g label)
                   \<and> actions s = [Goto (make_search_url keyword), WaitForLoadState,
                                  RemoveListener])"
    by blast
  from only [OF m ul] v have eq: "label = ''zz''" "g = 2" "name = name_note_type" by auto
  show ?thesis using u c s e unfolding eq by blast
qed

end
